theory Spec2Isabelle
  imports Complex_Main "HOL-Library.AList"
begin

section \<open>JavaScript values\<close>

text \<open>
  The parsers of this program read untyped values (\<^verbatim>\<open>any\<close>, \<^verbatim>\<open>unknown\<close>): an HTTP
  response body or the content of a JSON file. The model keeps the values JSON can
  produce, \<^verbatim>\<open>undefined\<close> (what reading a missing property gives) and one opaque value
  \<open>JNative\<close> for the functions and built-in objects that a property read can reach
  through a prototype. A number is a double: the program never calculates with the
  numbers it parses, it converts, tests for zero and stores, so the model keeps a finite
  number as the rational it denotes, next to the three special values.
  An object is the list of its own properties; the first pair with a key is its value.
\<close>

datatype jsnum = NaN | PosInf | NegInf | Fin rat

datatype jsval =
    JUndefined
  | JNull
  | JBool bool
  | JNum jsnum
  | JStr string
  | JArr "jsval list"
  | JObj "(string \<times> jsval) list"
  | JNative

text \<open>
  Two conversions are built into the language and lie outside the repository: the text
  of a number (\<^verbatim>\<open>Number::toString\<close>) and the number a string denotes
  (\<^verbatim>\<open>StringToNumber\<close>). The model takes them as parameters.
\<close>

record js_runtime =
  numberToString :: "jsnum \<Rightarrow> string"
  stringToNumber :: "string \<Rightarrow> jsnum"

fun falsy_num :: "jsnum \<Rightarrow> bool" where
  "falsy_num NaN = True"
| "falsy_num (Fin r) = (r = 0)"
| "falsy_num PosInf = False"
| "falsy_num NegInf = False"

fun truthy :: "jsval \<Rightarrow> bool" where
  "truthy JUndefined = False"
| "truthy JNull = False"
| "truthy (JBool b) = b"
| "truthy (JNum n) = (\<not> falsy_num n)"
| "truthy (JStr s) = (s \<noteq> [])"
| "truthy (JArr xs) = True"
| "truthy (JObj kvs) = True"
| "truthy JNative = True"

text \<open>\<^verbatim>\<open>a || b\<close> and \<^verbatim>\<open>a ?? b\<close> on operands whose evaluation cannot throw.\<close>

definition js_or :: "jsval \<Rightarrow> jsval \<Rightarrow> jsval" where
  "js_or a b = (if truthy a then a else b)"

definition nullish :: "jsval \<Rightarrow> bool" where
  "nullish v = (v = JUndefined \<or> v = JNull)"

definition js_coalesce :: "jsval \<Rightarrow> jsval \<Rightarrow> jsval" where
  "js_coalesce a b = (if nullish a then b else a)"

text \<open>\<^verbatim>\<open>typeof v === 'object'\<close>, \<^verbatim>\<open>typeof v === 'string'\<close> and \<^verbatim>\<open>Array.isArray(v)\<close>.\<close>

fun typeof_object :: "jsval \<Rightarrow> bool" where
  "typeof_object JNull = True"
| "typeof_object (JArr xs) = True"
| "typeof_object (JObj kvs) = True"
| "typeof_object v = False"

fun typeof_string :: "jsval \<Rightarrow> bool" where
  "typeof_string (JStr s) = True"
| "typeof_string v = False"

fun isArray :: "jsval \<Rightarrow> bool" where
  "isArray (JArr xs) = True"
| "isArray v = False"

subsection \<open>Property reads\<close>

text \<open>
  The members every object inherits from \<^verbatim>\<open>Object.prototype\<close> and every array from
  \<^verbatim>\<open>Array.prototype\<close>. A read of one of these names on an object that has no own
  property of that name gives a function or a built-in object, never \<^verbatim>\<open>undefined\<close>.
\<close>

definition objectPrototypeKeys :: "string list" where
  "objectPrototypeKeys =
     [''constructor'', ''__proto__'', ''hasOwnProperty'', ''isPrototypeOf'',
      ''propertyIsEnumerable'', ''toLocaleString'', ''toString'', ''valueOf'',
      ''__defineGetter__'', ''__defineSetter__'', ''__lookupGetter__'', ''__lookupSetter__'']"

definition arrayPrototypeKeys :: "string list" where
  "arrayPrototypeKeys =
     [''at'', ''concat'', ''copyWithin'', ''entries'', ''every'', ''fill'', ''filter'',
      ''find'', ''findIndex'', ''findLast'', ''findLastIndex'', ''flat'', ''flatMap'',
      ''forEach'', ''includes'', ''indexOf'', ''join'', ''keys'', ''lastIndexOf'', ''map'',
      ''pop'', ''push'', ''reduce'', ''reduceRight'', ''reverse'', ''shift'', ''slice'',
      ''some'', ''sort'', ''splice'', ''toReversed'', ''toSorted'', ''toSpliced'',
      ''unshift'', ''values'', ''with'']"

definition object_proto_get :: "string \<Rightarrow> jsval" where
  "object_proto_get k = (if k \<in> set objectPrototypeKeys then JNative else JUndefined)"

text \<open>The canonical text of an array index.\<close>

definition digit_char :: "nat \<Rightarrow> char" where
  "digit_char d = char_of (48 + d)"

function dec_of_nat :: "nat \<Rightarrow> string" where
  "dec_of_nat n = (if n < 10 then [digit_char n] else dec_of_nat (n div 10) @ [digit_char (n mod 10)])"
  by pat_completeness auto
termination
  by (relation "measure id") auto

definition array_entries :: "jsval list \<Rightarrow> (string \<times> jsval) list" where
  "array_entries xs = zip (map dec_of_nat [0..<length xs]) xs"

text \<open>
  \<^verbatim>\<open>v.k\<close> and \<^verbatim>\<open>v[k]\<close> for a receiver that is not \<^verbatim>\<open>null\<close> or \<^verbatim>\<open>undefined\<close> (there the
  read throws, which each caller below writes out). On a string, a number or a boolean
  the program reads only the fixed field names of the snapshot format, none of which
  the wrapper prototypes define, so the read gives \<^verbatim>\<open>undefined\<close>.
\<close>

fun get_prop :: "jsval \<Rightarrow> string \<Rightarrow> jsval" where
  "get_prop (JObj kvs) k =
     (case map_of kvs k of Some v \<Rightarrow> v | None \<Rightarrow> object_proto_get k)"
| "get_prop (JArr xs) k =
     (case map_of (array_entries xs) k of
        Some v \<Rightarrow> v
      | None \<Rightarrow>
          if k = ''length'' then JNum (Fin (of_nat (length xs)))
          else if k \<in> set arrayPrototypeKeys then JNative
          else object_proto_get k)"
| "get_prop v k = JUndefined"

text \<open>\<^verbatim>\<open>v?.k\<close>.\<close>

definition get_prop_opt :: "jsval \<Rightarrow> string \<Rightarrow> jsval" where
  "get_prop_opt v k = (if nullish v then JUndefined else get_prop v k)"

subsection \<open>Conversions\<close>

text \<open>
  \<^verbatim>\<open>ToString\<close>, as a property key or an array element needs it. \<open>None\<close> is the
  \<^verbatim>\<open>TypeError\<close> of \<^verbatim>\<open>ToPrimitive\<close>: an object parsed from JSON that has an own property
  \<^verbatim>\<open>toString\<close> hides the inherited method with a value that cannot be called, and the
  remaining candidate \<^verbatim>\<open>valueOf\<close> gives no primitive. An array joins the texts of its
  elements with commas, \<^verbatim>\<open>null\<close> and \<^verbatim>\<open>undefined\<close> counting as empty.
\<close>

fun js_toString :: "js_runtime \<Rightarrow> jsval \<Rightarrow> string option"
  and js_join :: "js_runtime \<Rightarrow> jsval list \<Rightarrow> string option" where
  "js_toString rt JUndefined = Some ''undefined''"
| "js_toString rt JNull = Some ''null''"
| "js_toString rt (JBool b) = Some (if b then ''true'' else ''false'')"
| "js_toString rt (JNum n) = Some (numberToString rt n)"
| "js_toString rt (JStr s) = Some s"
| "js_toString rt (JArr xs) = js_join rt xs"
| "js_toString rt (JObj kvs) =
     (if map_of kvs ''toString'' = None then Some ''[object Object]'' else None)"
| "js_toString rt JNative = Some ''function () { [native code] }''"
| "js_join rt [] = Some []"
| "js_join rt (x # xs) =
     (case (if nullish x then Some [] else js_toString rt x) of
        None \<Rightarrow> None
      | Some s \<Rightarrow>
          (if xs = [] then Some s
           else (case js_join rt xs of None \<Rightarrow> None | Some t \<Rightarrow> Some (s @ '','' @ t))))"

text \<open>\<^verbatim>\<open>Number(v)\<close>; \<open>None\<close> is again the \<^verbatim>\<open>TypeError\<close> of \<^verbatim>\<open>ToPrimitive\<close>.\<close>

fun toNumber :: "js_runtime \<Rightarrow> jsval \<Rightarrow> jsnum option" where
  "toNumber rt JUndefined = Some NaN"
| "toNumber rt JNull = Some (Fin 0)"
| "toNumber rt (JBool b) = Some (Fin (if b then 1 else 0))"
| "toNumber rt (JNum n) = Some n"
| "toNumber rt (JStr s) = Some (stringToNumber rt s)"
| "toNumber rt JNative = Some NaN"
| "toNumber rt v = map_option (stringToNumber rt) (js_toString rt v)"

text \<open>\<^verbatim>\<open>n || d\<close> on numbers.\<close>

definition num_or :: "jsnum \<Rightarrow> jsnum \<Rightarrow> jsnum" where
  "num_or n d = (if falsy_num n then d else n)"

text \<open>
  \<^verbatim>\<open>String.prototype.toLowerCase\<close> on the letters A to Z. The only use of the result is
  the search for ASCII file extensions below, which no other character can lower into.
\<close>

definition lowerChar :: "char \<Rightarrow> char" where
  "lowerChar c =
     (let n = (of_char c :: nat) in if 65 \<le> n \<and> n \<le> 90 then char_of (n + 32) else c)"

definition toLowerCase :: "string \<Rightarrow> string" where
  "toLowerCase s = map lowerChar s"

section \<open>Snapshot parser\<close>

datatype MediaType = image | video | pdf

datatype FitMode = contain | cover | stretch

text \<open>
  What \<^verbatim>\<open>normalizeItem\<close> returns. The parser casts to \<^verbatim>\<open>TimelineItem\<close> without
  checking, so at run time \<^verbatim>\<open>id\<close> (here \<open>p_itemId\<close>), \<^verbatim>\<open>mediaId\<close>, \<^verbatim>\<open>type\<close>, \<^verbatim>\<open>remoteUrl\<close>, \<^verbatim>\<open>sha256\<close> and
  \<^verbatim>\<open>meta\<close> hold whatever the payload held; the model keeps them as values.
\<close>

record ParsedItem =
  p_itemId :: jsval
  p_mediaId :: jsval
  p_type :: jsval
  p_remoteUrl :: jsval
  p_displayMs :: jsnum
  p_fit :: FitMode
  p_muted :: bool
  p_sha256 :: jsval
  p_meta :: jsval
  p_transitionDurationMs :: jsnum

datatype parse_error =
    PayloadNotObject  \<comment> \<open>\<^verbatim>\<open>new Error('Snapshot payload is not an object')\<close>\<close>
  | TypeError string  \<comment> \<open>thrown by the runtime, with the expression that failed\<close>

fun media_type_name :: "MediaType \<Rightarrow> string" where
  "media_type_name image = ''image''"
| "media_type_name video = ''video''"
| "media_type_name pdf = ''pdf''"

text \<open>
  The three regular expressions of \<^verbatim>\<open>inferTypeFromUrl\<close> have one shape,
  \<^verbatim>\<open>/\.(e1|e2|...)(\?|#|$)/\<close>: somewhere in the string a dot, one of the extensions,
  then a question mark, a hash or the end of the string.
\<close>

definition ext_here :: "string \<Rightarrow> string \<Rightarrow> bool" where
  "ext_here e cs =
     (take (length e) cs = e \<and>
      (case drop (length e) cs of
         [] \<Rightarrow> True
       | d # ds \<Rightarrow> d = CHR ''?'' \<or> d = CHR ''#''))"

fun regex_ext :: "string list \<Rightarrow> string \<Rightarrow> bool" where
  "regex_ext exts [] = False"
| "regex_ext exts (c # cs) =
     ((c = CHR ''.'' \<and> list_ex (\<lambda>e. ext_here e cs) exts) \<or> regex_ext exts cs)"

text \<open>
  \<^verbatim>\<open>inferTypeFromUrl\<close>. The argument is typed \<^verbatim>\<open>string | undefined\<close> and comes from
  untyped input: a value that is truthy and not a string has no \<^verbatim>\<open>toLowerCase\<close> method,
  and the call throws.
\<close>

definition inferTypeFromUrl :: "jsval \<Rightarrow> parse_error + MediaType" where
  "inferTypeFromUrl url =
     (if \<not> truthy url then Inr image
      else (case url of
              JStr s \<Rightarrow>
                (let lower = toLowerCase s in
                 if regex_ext [''mp4'', ''webm'', ''mov'', ''m4v''] lower then Inr video
                 else if regex_ext [''pdf''] lower then Inr pdf
                 else if regex_ext [''jpg'', ''jpeg'', ''png'', ''gif'', ''webp''] lower then Inr image
                 else Inr image)
            | _ \<Rightarrow> Inl (TypeError ''url.toLowerCase is not a function'')))"

definition normalizeFit :: "jsval \<Rightarrow> FitMode" where
  "normalizeFit f =
     (if f = JStr ''cover'' then cover
      else if f = JStr ''stretch'' then stretch
      else if f = JStr ''contain'' then contain
      else contain)"

text \<open>
  \<^verbatim>\<open>SnapshotMediaUrlMap\<close>: a plain object used as a dictionary under keys taken from the
  payload. Its own properties are an association list. Its prototype is
  \<^verbatim>\<open>Object.prototype\<close> until an assignment to the key \<^verbatim>\<open>__proto__\<close> replaces it: that
  assignment runs the inherited setter, which installs an object value as the
  prototype and ignores any other value.
\<close>

datatype prototype = ObjectPrototype | ProtoValue jsval

record UrlMap =
  own :: "(string \<times> jsval) list"
  proto :: prototype

definition empty_map :: UrlMap where
  "empty_map = \<lparr>own = [], proto = ObjectPrototype\<rparr>"

definition map_set :: "UrlMap \<Rightarrow> string \<Rightarrow> jsval \<Rightarrow> UrlMap" where
  "map_set m k v =
     (if k = ''__proto__'' then
        (case v of
           JObj kvs \<Rightarrow> m\<lparr>proto := ProtoValue v\<rparr>
         | JArr xs \<Rightarrow> m\<lparr>proto := ProtoValue v\<rparr>
         | _ \<Rightarrow> m)
      else m\<lparr>own := AList.update k v (own m)\<rparr>)"

definition map_get :: "UrlMap \<Rightarrow> string \<Rightarrow> jsval" where
  "map_get m k =
     (case map_of (own m) k of
        Some v \<Rightarrow> v
      | None \<Rightarrow>
          (case proto m of
             ObjectPrototype \<Rightarrow> object_proto_get k
           | ProtoValue p \<Rightarrow> if k = ''__proto__'' then p else get_prop p k))"

text \<open>
  The duration a raw item asks for: the first of its four spellings that is not
  \<^verbatim>\<open>null\<close> or \<^verbatim>\<open>undefined\<close>
  (\<^verbatim>\<open>input.display_ms ?? input.displayMs ?? input.duration_ms ?? input.durationMs\<close>).
\<close>

definition duration_field :: "jsval \<Rightarrow> jsval" where
  "duration_field input =
     js_coalesce (get_prop input ''display_ms'')
       (js_coalesce (get_prop input ''displayMs'')
          (js_coalesce (get_prop input ''duration_ms'') (get_prop input ''durationMs'')))"

text \<open>
  A throw ends the function it happens in: the steps of a function that can throw are
  chained with \<open>bind_err\<close>, which runs the rest only on a result.
\<close>

definition bind_err :: "'e + 'a \<Rightarrow> ('a \<Rightarrow> 'e + 'b) \<Rightarrow> 'e + 'b" where
  "bind_err r f = (case r of Inl e \<Rightarrow> Inl e | Inr x \<Rightarrow> f x)"

definition number_of :: "js_runtime \<Rightarrow> jsval \<Rightarrow> parse_error + jsnum" where
  "number_of rt v =
     (case toNumber rt v of
        None \<Rightarrow> Inl (TypeError ''Cannot convert object to primitive value'')
      | Some n \<Rightarrow> Inr n)"

text \<open>
  \<^verbatim>\<open>input.media_url || input.url || (mediaId ? mediaUrlMap[mediaId] : undefined)\<close>: the
  dictionary is read only when the item names no URL itself, under the text of
  \<^verbatim>\<open>mediaId\<close>.
\<close>

definition resolve_url :: "js_runtime \<Rightarrow> jsval \<Rightarrow> jsval \<Rightarrow> UrlMap \<Rightarrow> parse_error + jsval" where
  "resolve_url rt input mid urlMap =
     (let direct = js_or (get_prop input ''media_url'') (get_prop input ''url'') in
      if truthy direct then Inr direct
      else if truthy mid then
        (case js_toString rt mid of
           None \<Rightarrow> Inl (TypeError ''Cannot convert object to primitive value'')
         | Some key \<Rightarrow> Inr (map_get urlMap key))
      else Inr JUndefined)"

text \<open>\<^verbatim>\<open>input.type || input.media_type || inferTypeFromUrl(remoteUrl)\<close>.\<close>

definition resolve_type :: "jsval \<Rightarrow> jsval \<Rightarrow> parse_error + jsval" where
  "resolve_type input url =
     (let explicit = js_or (get_prop input ''type'') (get_prop input ''media_type'') in
      if truthy explicit then Inr explicit
      else bind_err (inferTypeFromUrl url) (\<lambda>t. Inr (JStr (media_type_name t))))"

text \<open>
  \<^verbatim>\<open>normalizeItem\<close>. \<open>rnd\<close> is the text \<^verbatim>\<open>Math.random().toString(36).slice(2, 8)\<close> of
  this call. The result is \<open>Inr None\<close> for the \<^verbatim>\<open>null\<close> the function returns on an input
  that is not an object, and \<open>Inl\<close> where an expression throws: the conversion of an
  object \<^verbatim>\<open>mediaId\<close> to a property key, \<^verbatim>\<open>inferTypeFromUrl\<close>, and \<^verbatim>\<open>Number\<close>.
\<close>

definition normalizeItem :: "js_runtime \<Rightarrow> string \<Rightarrow> jsval \<Rightarrow> UrlMap \<Rightarrow> parse_error + ParsedItem option" where
  "normalizeItem rt rnd input urlMap =
     (if \<not> truthy input \<or> \<not> typeof_object input then Inr None
      else
        let mid = js_or (get_prop input ''media_id'')
                    (js_or (get_prop input ''mediaId'') (get_prop input ''id''))
        in
        bind_err (resolve_url rt input mid urlMap) (\<lambda>url.
        bind_err (resolve_type input url) (\<lambda>ty.
        bind_err (number_of rt (js_coalesce (duration_field input) (JNum (Fin 10000)))) (\<lambda>d.
        bind_err (number_of rt (js_coalesce (get_prop input ''transition_ms'')
                    (js_coalesce (get_prop input ''transitionDurationMs'') (JNum (Fin 0))))) (\<lambda>t.
        let ident = js_or (get_prop input ''id'') (js_or mid (JStr (''item-'' @ rnd))) in
        Inr (Some \<lparr>p_itemId = ident,
                   p_mediaId = js_or mid ident,
                   p_type = ty,
                   p_remoteUrl = url,
                   p_displayMs = num_or d (Fin 10000),
                   p_fit = normalizeFit (js_or (get_prop input ''fit'') (get_prop input ''fit_mode'')),
                   p_muted = truthy (js_coalesce (get_prop input ''muted'') (JBool False)),
                   p_sha256 = get_prop input ''sha256'',
                   p_meta = get_prop input ''meta'',
                   p_transitionDurationMs = num_or t (Fin 0)\<rparr>))))))"

text \<open>
  \<^verbatim>\<open>extractMediaUrlMap\<close>: the two loops. \<^verbatim>\<open>Object.entries\<close> of an array lists its
  elements under their indices.
\<close>

fun object_entries :: "jsval \<Rightarrow> (string \<times> jsval) list" where
  "object_entries (JObj kvs) = kvs"
| "object_entries (JArr xs) = array_entries xs"
| "object_entries v = []"

fun copy_string_entries :: "UrlMap \<Rightarrow> (string \<times> jsval) list \<Rightarrow> UrlMap" where
  "copy_string_entries m [] = m"
| "copy_string_entries m ((key, val) # rest) =
     copy_string_entries (if typeof_string val then map_set m key val else m) rest"

fun add_media_entries :: "js_runtime \<Rightarrow> UrlMap \<Rightarrow> jsval list \<Rightarrow> parse_error + UrlMap" where
  "add_media_entries rt m [] = Inr m"
| "add_media_entries rt m (entry # rest) =
     (if nullish entry then Inl (TypeError ''Cannot read properties of null'')
      else
        let mid = js_or (get_prop entry ''media_id'') (get_prop entry ''mediaId'');
            url = js_or (get_prop entry ''url'') (get_prop entry ''media_url'')
        in if truthy mid \<and> truthy url then
             (case js_toString rt mid of
                None \<Rightarrow> Inl (TypeError ''Cannot convert object to primitive value'')
              | Some key \<Rightarrow> add_media_entries rt (map_set m key url) rest)
           else add_media_entries rt m rest)"

definition extractMediaUrlMap :: "js_runtime \<Rightarrow> jsval \<Rightarrow> parse_error + UrlMap" where
  "extractMediaUrlMap rt payload =
     (let rawMap = js_or (get_prop payload ''media_urls'') (get_prop payload ''mediaUrls'');
          m = (if truthy rawMap \<and> typeof_object rawMap
               then copy_string_entries empty_map (object_entries rawMap)
               else empty_map)
      in case get_prop payload ''media'' of
           JArr es \<Rightarrow> add_media_entries rt m es
         | _ \<Rightarrow> Inr m)"

record ParsedSnapshot =
  p_snapshotId :: jsval
  p_scheduleId :: jsval
  p_items :: "ParsedItem list"
  p_emergencyItem :: "ParsedItem option"
  p_defaultItem :: "ParsedItem option"
  p_mediaUrlMap :: UrlMap
  p_fetchedAt :: jsval
  p_raw :: jsval

text \<open>
  \<^verbatim>\<open>itemsSource.map(normalizeItem).filter(Boolean)\<close>: the items are normalized in
  order, the first throw ends the loop, the \<^verbatim>\<open>null\<close> results are dropped. The \<open>k\<close>-th
  call draws the random text \<open>rnd k\<close>.
\<close>

fun normalize_all :: "js_runtime \<Rightarrow> (nat \<Rightarrow> string) \<Rightarrow> nat \<Rightarrow> UrlMap \<Rightarrow> jsval list \<Rightarrow> parse_error + ParsedItem list" where
  "normalize_all rt rnd k m [] = Inr []"
| "normalize_all rt rnd k m (x # xs) =
     bind_err (normalizeItem rt (rnd k) x m) (\<lambda>r.
     bind_err (normalize_all rt rnd (Suc k) m xs) (\<lambda>rs.
     Inr (case r of None \<Rightarrow> rs | Some item \<Rightarrow> item # rs)))"

text \<open>The payload inside its optional envelope: \<^verbatim>\<open>raw?.snapshot || raw?.data || raw\<close>.\<close>

definition unwrap_payload :: "jsval \<Rightarrow> jsval" where
  "unwrap_payload rawv = js_or (get_prop_opt rawv ''snapshot'') (js_or (get_prop_opt rawv ''data'') rawv)"

text \<open>
  \<^verbatim>\<open>parseSnapshotResponse\<close>. \<open>nowIso\<close> is \<^verbatim>\<open>new Date().toISOString()\<close>.
\<close>

text \<open>\<^verbatim>\<open>Array.isArray(schedule?.items) ? schedule?.items : snapshot.items\<close>.\<close>

definition items_value :: "jsval \<Rightarrow> jsval" where
  "items_value payload =
     (let schedule = get_prop payload ''schedule'' in
      if isArray (get_prop_opt schedule ''items'')
      then get_prop_opt schedule ''items''
      else get_prop payload ''items'')"

text \<open>
  The receiver of \<^verbatim>\<open>.map\<close> in \<^verbatim>\<open>(itemsSource || []).map(...)\<close>: a truthy \<^verbatim>\<open>itemsSource\<close>
  that is not an array has no \<^verbatim>\<open>map\<close> method, and the call throws.
\<close>

definition items_source :: "jsval \<Rightarrow> parse_error + jsval list" where
  "items_source payload =
     (let itemsSource = items_value payload in
      if \<not> truthy itemsSource then Inr []
      else (case itemsSource of
              JArr xs \<Rightarrow> Inr xs
            | _ \<Rightarrow> Inl (TypeError ''(itemsSource || []).map is not a function'')))"

definition emergencyActive :: "jsval \<Rightarrow> bool" where
  "emergencyActive emergencyInput =
     (truthy emergencyInput \<and>
      (get_prop emergencyInput ''active'' = JBool True \<or>
       truthy (js_or (get_prop emergencyInput ''media_url'') (get_prop emergencyInput ''url''))))"

definition parseSnapshotResponse :: "js_runtime \<Rightarrow> (nat \<Rightarrow> string) \<Rightarrow> string \<Rightarrow> jsval \<Rightarrow> parse_error + ParsedSnapshot" where
  "parseSnapshotResponse rt rnd nowIso rawv =
     (let payload = unwrap_payload rawv in
      if \<not> truthy payload \<or> \<not> typeof_object payload then Inl PayloadNotObject
      else
        bind_err (extractMediaUrlMap rt payload) (\<lambda>urlMap.
        bind_err (items_source payload) (\<lambda>source.
        bind_err (normalize_all rt rnd 0 urlMap source) (\<lambda>its.
        let emergencyInput = get_prop payload ''emergency'' in
        bind_err (if emergencyActive emergencyInput
                  then normalizeItem rt (rnd (length source)) emergencyInput urlMap
                  else Inr None) (\<lambda>emergency.
        let defaultInput = get_prop payload ''default_media'' in
        bind_err (if truthy defaultInput
                  then normalizeItem rt (rnd (Suc (length source))) defaultInput urlMap
                  else Inr None) (\<lambda>dflt.
        Inr \<lparr>p_snapshotId = js_or (get_prop payload ''id'') (get_prop payload ''snapshot_id''),
             p_scheduleId = get_prop_opt (get_prop payload ''schedule'') ''id'',
             p_items = its,
             p_emergencyItem = emergency,
             p_defaultItem = dflt,
             p_mediaUrlMap = urlMap,
             p_fetchedAt = js_or (get_prop payload ''fetched_at'')
                             (js_or (get_prop payload ''generated_at'') (JStr nowIso)),
             p_raw = rawv\<rparr>))))))"

section \<open>The declared shape of a snapshot payload\<close>

text \<open>
  The parser reads a payload typed \<^verbatim>\<open>DeviceSnapshot\<close> and checks none of that type at
  run time. These predicates say, field by field, what the parser relies on: identifiers
  and URLs are strings where present, durations are numbers where present, an entry of
  \<^verbatim>\<open>media\<close> is not \<^verbatim>\<open>null\<close>, the items are an array or falsy. An identifier must
  also not be the name of a member of \<^verbatim>\<open>Object.prototype\<close>, since the URL dictionary is a
  plain object read under identifiers.
\<close>

fun string_or_absent :: "jsval \<Rightarrow> bool" where
  "string_or_absent JUndefined = True"
| "string_or_absent JNull = True"
| "string_or_absent (JStr s) = True"
| "string_or_absent v = False"

fun number_or_absent :: "jsval \<Rightarrow> bool" where
  "number_or_absent JUndefined = True"
| "number_or_absent JNull = True"
| "number_or_absent (JNum n) = True"
| "number_or_absent v = False"

fun plain_key :: "jsval \<Rightarrow> bool" where
  "plain_key JUndefined = True"
| "plain_key JNull = True"
| "plain_key (JStr s) = (s \<notin> set objectPrototypeKeys)"
| "plain_key v = False"

definition typed_item :: "jsval \<Rightarrow> bool" where
  "typed_item input =
     (plain_key (get_prop input ''media_id'') \<and> plain_key (get_prop input ''mediaId'') \<and>
      plain_key (get_prop input ''id'') \<and>
      string_or_absent (get_prop input ''media_url'') \<and> string_or_absent (get_prop input ''url'') \<and>
      number_or_absent (get_prop input ''display_ms'') \<and>
      number_or_absent (get_prop input ''displayMs'') \<and>
      number_or_absent (get_prop input ''duration_ms'') \<and>
      number_or_absent (get_prop input ''durationMs'') \<and>
      number_or_absent (get_prop input ''transition_ms'') \<and>
      number_or_absent (get_prop input ''transitionDurationMs''))"

definition typed_media_entry :: "jsval \<Rightarrow> bool" where
  "typed_media_entry entry =
     (entry \<noteq> JNull \<and> entry \<noteq> JUndefined \<and>
      string_or_absent (get_prop entry ''media_id'') \<and> string_or_absent (get_prop entry ''mediaId'') \<and>
      string_or_absent (get_prop entry ''url'') \<and> string_or_absent (get_prop entry ''media_url''))"

definition well_shaped :: "jsval \<Rightarrow> bool" where
  "well_shaped payload =
     ((case get_prop payload ''media'' of
         JArr es \<Rightarrow> list_all typed_media_entry es
       | _ \<Rightarrow> True) \<and>
      (case items_value payload of
         JArr xs \<Rightarrow> list_all typed_item xs
       | v \<Rightarrow> \<not> truthy v) \<and>
      typed_item (get_prop payload ''emergency'') \<and>
      typed_item (get_prop payload ''default_media''))"

text \<open>
  What the two loops of \<^verbatim>\<open>extractMediaUrlMap\<close> keep true on such a payload: the
  dictionary has its original prototype and every own value is a string.
\<close>

definition strings_only :: "UrlMap \<Rightarrow> bool" where
  "strings_only m = (proto m = ObjectPrototype \<and> (\<forall>k v. map_of (own m) k = Some v \<longrightarrow> typeof_string v))"


section \<open>Default-media settings client\<close>

datatype DefaultMediaType = IMAGE | VIDEO | DOCUMENT

record DefaultMediaItem =
  dm_id :: string
  dm_name :: string
  dm_type :: DefaultMediaType
  dm_media_url :: string
  dm_source_content_type :: "string option"

record DefaultMediaResponse =
  media_id :: "string option"
  media :: "DefaultMediaItem option"

text \<open>\<^verbatim>\<open>typeof v === 'string' ? v : undefined\<close>.\<close>

fun string_or_undefined :: "jsval \<Rightarrow> string option" where
  "string_or_undefined (JStr s) = Some s"
| "string_or_undefined v = None"

text \<open>
  \<^verbatim>\<open>typeof input.type === 'string' && VALID_MEDIA_TYPES.includes(input.type)\<close> with
  \<^verbatim>\<open>VALID_MEDIA_TYPES = ['IMAGE', 'VIDEO', 'DOCUMENT']\<close>.
\<close>

definition valid_media_type :: "jsval \<Rightarrow> DefaultMediaType option" where
  "valid_media_type v =
     (if v = JStr ''IMAGE'' then Some IMAGE
      else if v = JStr ''VIDEO'' then Some VIDEO
      else if v = JStr ''DOCUMENT'' then Some DOCUMENT
      else None)"

text \<open>\<^verbatim>\<open>!s\<close> on a value that is a string or \<^verbatim>\<open>undefined\<close>: the empty string is falsy too.\<close>

fun missing :: "string option \<Rightarrow> bool" where
  "missing None = True"
| "missing (Some s) = (s = [])"

definition normalizeMediaItem :: "jsval \<Rightarrow> DefaultMediaItem option" where
  "normalizeMediaItem input =
     (if \<not> truthy input \<or> \<not> typeof_object input then None
      else
        let idv = string_or_undefined (get_prop input ''id'');
            name = (case get_prop input ''name'' of JStr s \<Rightarrow> s | _ \<Rightarrow> ''Untitled media'');
            typ = valid_media_type (get_prop input ''type'');
            mediaUrl = string_or_undefined (get_prop input ''media_url'');
            sourceContentType = string_or_undefined (get_prop input ''source_content_type'')
        in
        if missing idv \<or> typ = None \<or> missing mediaUrl then None
        else Some \<lparr>dm_id = the idv, dm_name = name, dm_type = the typ,
                   dm_media_url = the mediaUrl, dm_source_content_type = sourceContentType\<rparr>)"

definition normalizeDefaultMediaResponse :: "jsval \<Rightarrow> DefaultMediaResponse" where
  "normalizeDefaultMediaResponse rawv =
     (if \<not> truthy rawv \<or> \<not> typeof_object rawv then \<lparr>media_id = None, media = None\<rparr>
      else
        let mid = string_or_undefined (get_prop rawv ''media_id'');
            item = normalizeMediaItem (get_prop rawv ''media'')
        in
        if missing mid \<or> item = None then \<lparr>media_id = None, media = None\<rparr>
        else \<lparr>media_id = mid, media = item\<rparr>)"

fun default_media_type_name :: "DefaultMediaType \<Rightarrow> string" where
  "default_media_type_name IMAGE = ''IMAGE''"
| "default_media_type_name VIDEO = ''VIDEO''"
| "default_media_type_name DOCUMENT = ''DOCUMENT''"

section \<open>Cache manager\<close>

datatype CacheStatus = ready | quarantined

record CacheEntry =
  ce_mediaId :: string
  ce_sha256 :: string
  ce_size :: nat
  ce_lastUsedAt :: rat
  ce_localPath :: string
  ce_status :: CacheStatus

text \<open>
  \<^verbatim>\<open>CacheError\<close>, with the message and the \<^verbatim>\<open>reason\<close> of its details. \<^verbatim>\<open>download\<close> gives
  the reason \<^verbatim>\<open>URL_EXPIRED\<close> to a failure with HTTP status 401 or 403 and none to any
  other; the integrity failure of \<^verbatim>\<open>addInternal\<close> has none either.
\<close>

record CacheError =
  message :: string
  reason :: "string option"

text \<open>
  The state of a \<^verbatim>\<open>CacheManager\<close> and of what it owns. \<^verbatim>\<open>entries\<close> is a \<^verbatim>\<open>Map\<close>, which
  iterates in insertion order: an association list, updated in place. \<open>disk\<close> is the
  cache directory, which the manager owns alone: the names in it in the order
  \<^verbatim>\<open>readdirSync\<close> lists them, each with the size \<^verbatim>\<open>statSync\<close> reports. The constructor
  creates the directory, and \<^verbatim>\<open>existsSync(this.cacheDir)\<close> is true from then on. The
  last two fields record effects for the properties below, latest first: the warnings
  logged and the URLs for which a download was started.
\<close>

record CacheManager =
  cacheDir :: string
  maxBytes :: int
  entries :: "(string \<times> CacheEntry) list"
  nowPlaying :: "string list"
  inFlight :: "string list"
  disk :: "(string \<times> nat) list"
  warnings :: "string list"
  downloads :: "string list"

text \<open>
  What the cache manager calls and the repository does not define here:
  \<^verbatim>\<open>sanitizeFilename\<close> and \<^verbatim>\<open>calculateBufferHash\<close> of \<^verbatim>\<open>common/utils\<close>, the two library
  calls of \<^verbatim>\<open>getFileExtension\<close> (\<^verbatim>\<open>new URL(url).pathname\<close>, which throws on a text that is
  no URL, and \<^verbatim>\<open>path.extname\<close>), and the network: \<open>fetch url\<close> is the body \<^verbatim>\<open>axios.get\<close>
  returns or the HTTP status of its failure, if it has one. \<open>pending\<close> is the outcome of
  an \<^verbatim>\<open>add\<close> that is still in flight when another \<^verbatim>\<open>add\<close> of the same media awaits it.
\<close>

record cache_env =
  sanitizeFilename :: "string \<Rightarrow> string"
  calculateBufferHash :: "string \<Rightarrow> string"
  urlPathname :: "string \<Rightarrow> string option"
  extname :: "string \<Rightarrow> string"
  fetch :: "string \<Rightarrow> nat option + string"
  pending :: "string \<Rightarrow> CacheError option"

text \<open>\<^verbatim>\<open>path.join(this.cacheDir, name)\<close> for a file name, which has no separator.\<close>

definition path_join :: "string \<Rightarrow> string \<Rightarrow> string" where
  "path_join dir name = dir @ ''/'' @ name"

definition existsSync :: "CacheManager \<Rightarrow> string \<Rightarrow> bool" where
  "existsSync c p = (p \<in> set (map (\<lambda>(name, bytes). path_join (cacheDir c) name) (disk c)))"

definition unlinkSync :: "CacheManager \<Rightarrow> string \<Rightarrow> CacheManager" where
  "unlinkSync c p = c\<lparr>disk := filter (\<lambda>(name, bytes). path_join (cacheDir c) name \<noteq> p) (disk c)\<rparr>"

definition getFileExtension :: "cache_env \<Rightarrow> string \<Rightarrow> string" where
  "getFileExtension env url =
     (if url = [] then []
      else (case urlPathname env url of
              Some pathname \<Rightarrow> extname env pathname
            | None \<Rightarrow> extname env url))"

definition file_name :: "cache_env \<Rightarrow> string \<Rightarrow> string \<Rightarrow> string" where
  "file_name env mediaId url = sanitizeFilename env mediaId @ getFileExtension env url"

definition getFilePath :: "cache_env \<Rightarrow> CacheManager \<Rightarrow> string \<Rightarrow> string \<Rightarrow> string" where
  "getFilePath env c mediaId url = path_join (cacheDir c) (file_name env mediaId url)"

definition getUsedBytes :: "CacheManager \<Rightarrow> nat" where
  "getUsedBytes c = sum_list (map (\<lambda>(k, e). ce_size e) (entries c))"

definition removeEntry :: "CacheManager \<Rightarrow> CacheEntry \<Rightarrow> CacheManager" where
  "removeEntry c entry =
     (let c1 = (if existsSync c (ce_localPath entry) then unlinkSync c (ce_localPath entry) else c)
      in c1\<lparr>entries := AList.delete (ce_mediaId entry) (entries c1)\<rparr>)"

text \<open>
  The loop of \<^verbatim>\<open>evictIfNeeded\<close> over the candidates, which were computed before it:
  it stops at the first candidate that finds enough room.
\<close>

fun evict_loop :: "nat \<Rightarrow> CacheManager \<Rightarrow> CacheEntry list \<Rightarrow> CacheManager" where
  "evict_loop sizeNeeded c [] = c"
| "evict_loop sizeNeeded c (entry # rest) =
     (if maxBytes c - int (getUsedBytes c) \<ge> int sizeNeeded then c
      else evict_loop sizeNeeded (removeEntry c entry) rest)"

text \<open>
  \<^verbatim>\<open>evictIfNeeded\<close>. \<^verbatim>\<open>Array.prototype.sort\<close> is stable, as \<open>sort_key\<close> is.
\<close>

definition evictIfNeeded :: "CacheManager \<Rightarrow> nat \<Rightarrow> CacheManager" where
  "evictIfNeeded c sizeNeeded =
     (if int sizeNeeded > maxBytes c \<and> maxBytes c > 0 then
        c\<lparr>warnings := ''Item exceeds cache capacity, skipping eviction'' # warnings c\<rparr>
      else if maxBytes c - int (getUsedBytes c) \<ge> int sizeNeeded then c
      else
        let candidates = sort_key ce_lastUsedAt
              (filter (\<lambda>entry. ce_mediaId entry \<notin> set (nowPlaying c)) (map snd (entries c)));
            c1 = evict_loop sizeNeeded c candidates
        in if maxBytes c1 - int (getUsedBytes c1) < int sizeNeeded then
             c1\<lparr>warnings := ''Not enough space to evict without touching now-playing items'' # warnings c1\<rparr>
           else c1)"

text \<open>\<^verbatim>\<open>download\<close>: the body, or the \<^verbatim>\<open>CacheError\<close> it throws.\<close>

definition download :: "cache_env \<Rightarrow> CacheManager \<Rightarrow> string \<Rightarrow> (CacheError + string) \<times> CacheManager" where
  "download env c url =
     (let c1 = c\<lparr>downloads := url # downloads c\<rparr> in
      case fetch env url of
        Inr data \<Rightarrow> (Inr data, c1)
      | Inl status \<Rightarrow>
          (if status = Some 401 \<or> status = Some 403
           then (Inl \<lparr>message = ''Presigned URL expired'', reason = Some ''URL_EXPIRED''\<rparr>, c1)
           else (Inl \<lparr>message = ''Failed to download cache item'', reason = None\<rparr>, c1)))"

text \<open>\<^verbatim>\<open>atomicWrite(filePath, data)\<close> into the cache directory.\<close>

definition atomicWrite :: "CacheManager \<Rightarrow> string \<Rightarrow> string \<Rightarrow> CacheManager" where
  "atomicWrite c name data = c\<lparr>disk := AList.update name (length data) (disk c)\<rparr>"

text \<open>
  \<^verbatim>\<open>has\<close>. \<open>now\<close> is the reading of \<^verbatim>\<open>Date.now()\<close> in this call. The second half of
  the function looks for a file of the media on disk: the first name that is the
  sanitized identifier or starts with it and a dot.
\<close>

definition has_on_disk :: "cache_env \<Rightarrow> rat \<Rightarrow> string \<Rightarrow> CacheManager \<Rightarrow> bool \<times> CacheManager" where
  "has_on_disk env now mediaId c =
     (let safeId = sanitizeFilename env mediaId in
      case find (\<lambda>(file, bytes). file = safeId \<or>
                   take (length (safeId @ ''.'')) file = safeId @ ''.'') (disk c) of
        Some (match, bytes) \<Rightarrow>
          (True,
           c\<lparr>entries := AList.update mediaId
                 \<lparr>ce_mediaId = mediaId, ce_sha256 = [], ce_size = bytes, ce_lastUsedAt = now,
                  ce_localPath = path_join (cacheDir c) match, ce_status = ready\<rparr>
                 (entries c)\<rparr>)
      | None \<Rightarrow> (False, c\<lparr>entries := AList.delete mediaId (entries c)\<rparr>))"

definition has :: "cache_env \<Rightarrow> rat \<Rightarrow> string \<Rightarrow> CacheManager \<Rightarrow> bool \<times> CacheManager" where
  "has env now mediaId c =
     (case map_of (entries c) mediaId of
        Some entry \<Rightarrow>
          if existsSync c (ce_localPath entry)
          then (True, c\<lparr>entries := AList.update mediaId (entry\<lparr>ce_lastUsedAt := now\<rparr>) (entries c)\<rparr>)
          else has_on_disk env now mediaId c
      | None \<Rightarrow> has_on_disk env now mediaId c)"

definition get :: "cache_env \<Rightarrow> rat \<Rightarrow> string \<Rightarrow> CacheManager \<Rightarrow> string option \<times> CacheManager" where
  "get env now mediaId c =
     (case has env now mediaId c of
        (False, c1) \<Rightarrow> (None, c1)
      | (True, c1) \<Rightarrow> (map_option ce_localPath (map_of (entries c1) mediaId), c1))"

text \<open>
  What the cache holds of a media, said without asking it: the path of the entry of the
  media when the file of that entry exists, else the path of the first file of the cache
  directory that is named after the media, else nothing. This is the answer \<^verbatim>\<open>get\<close>
  gives (\<open>get_path\<close> below), and no \<^verbatim>\<open>get\<close> changes it for any media
  (\<open>held_path_get\<close>).
\<close>

definition held_path :: "cache_env \<Rightarrow> CacheManager \<Rightarrow> string \<Rightarrow> string option" where
  "held_path env c mediaId =
     (let safeId = sanitizeFilename env mediaId;
          on_disk = map_option (\<lambda>(match, bytes). path_join (cacheDir c) match)
                      (find (\<lambda>(file, bytes). file = safeId \<or>
                               take (length (safeId @ ''.'')) file = safeId @ ''.'') (disk c))
      in case map_of (entries c) mediaId of
           Some entry \<Rightarrow> if existsSync c (ce_localPath entry) then Some (ce_localPath entry) else on_disk
         | None \<Rightarrow> on_disk)"

text \<open>
  \<^verbatim>\<open>addInternal\<close>. An optional \<^verbatim>\<open>sha256\<close> is an \<open>option\<close>; the empty string is falsy as
  \<^verbatim>\<open>undefined\<close> is (\<open>missing\<close>). After \<^verbatim>\<open>evictIfNeeded\<close> returns, the file is written
  and the entry registered, whatever \<^verbatim>\<open>evictIfNeeded\<close> found.
\<close>

definition addInternal :: "cache_env \<Rightarrow> rat \<Rightarrow> string \<Rightarrow> string \<Rightarrow> string option \<Rightarrow> CacheManager \<Rightarrow> (CacheError + unit) \<times> CacheManager" where
  "addInternal env now mediaId url sha c =
     (case download env c url of
        (Inl e, c1) \<Rightarrow> (Inl e, c1)
      | (Inr data, c1) \<Rightarrow>
          (let hash = calculateBufferHash env data in
           if \<not> missing sha \<and> sha \<noteq> Some hash then
             (Inl \<lparr>message = ''Cache item failed integrity validation'', reason = None\<rparr>, c1)
           else
             let c2 = evictIfNeeded c1 (length data);
                 c3 = atomicWrite c2 (file_name env mediaId url) data;
                 entry = \<lparr>ce_mediaId = mediaId,
                          ce_sha256 = (case sha of Some s \<Rightarrow> if s = [] then hash else s | None \<Rightarrow> hash),
                          ce_size = length data,
                          ce_lastUsedAt = now,
                          ce_localPath = getFilePath env c3 mediaId url,
                          ce_status = ready\<rparr>
             in (Inr (), c3\<lparr>entries := AList.update mediaId entry (entries c3)\<rparr>)))"

text \<open>
  \<^verbatim>\<open>add\<close>. One \<open>now\<close> stands for the two readings of the clock the call makes, in \<^verbatim>\<open>has\<close>
  and in \<^verbatim>\<open>addInternal\<close>.
\<close>

definition add :: "cache_env \<Rightarrow> rat \<Rightarrow> string \<Rightarrow> string \<Rightarrow> string option \<Rightarrow> CacheManager \<Rightarrow> (CacheError + unit) \<times> CacheManager" where
  "add env now mediaId url sha c =
     (case has env now mediaId c of
        (True, c1) \<Rightarrow> (Inr (), c1)
      | (False, c1) \<Rightarrow>
          if mediaId \<in> set (inFlight c1) then
            (case pending env mediaId of None \<Rightarrow> (Inr (), c1) | Some e \<Rightarrow> (Inl e, c1))
          else
            (case addInternal env now mediaId url sha (c1\<lparr>inFlight := mediaId # inFlight c1\<rparr>) of
               (r, c2) \<Rightarrow> (r, c2\<lparr>inFlight := removeAll mediaId (inFlight c2)\<rparr>)))"

section \<open>Snapshot manager\<close>

text \<open>
  The manager works on \<^verbatim>\<open>TimelineItem\<close> and \<^verbatim>\<open>NormalizedSnapshot\<close> as their types declare
  them: identifiers, URLs and paths are strings where present. Of the snapshot it reads
  the fields below; \<^verbatim>\<open>mediaUrlMap\<close> and \<^verbatim>\<open>raw\<close> it only writes to disk.
\<close>

record TimelineItem =
  ti_id :: string
  ti_mediaId :: "string option"
  ti_objectKey :: "string option"
  ti_type :: string
  ti_remoteUrl :: "string option"
  ti_localPath :: "string option"
  ti_localUrl :: "string option"
  ti_displayMs :: rat
  ti_fit :: FitMode
  ti_muted :: bool
  ti_sha256 :: "string option"
  ti_transitionDurationMs :: rat

record NormalizedSnapshot =
  snapshotId :: "string option"
  scheduleId :: "string option"
  items :: "TimelineItem list"
  emergencyItem :: "TimelineItem option"
  defaultItem :: "TimelineItem option"
  fetchedAt :: string

datatype PlaybackMode = mode_normal | mode_emergency | mode_default | mode_offline | mode_empty

record PlaybackPlaylist =
  pl_mode :: PlaybackMode
  pl_items :: "TimelineItem list"
  pl_scheduleId :: "string option"
  pl_snapshotId :: "string option"
  pl_lastSnapshotAt :: "string option"

text \<open>\<^verbatim>\<open>a || b\<close> on two optional strings.\<close>

definition str_or :: "string option \<Rightarrow> string option \<Rightarrow> string option" where
  "str_or a b = (if missing a then b else a)"

text \<open>
  \<^verbatim>\<open>attachLocalMedia\<close>: every item whose media the cache holds, in order, with the local
  path and its file URL attached; the others are skipped. \<open>toFileUrl\<close> is
  \<^verbatim>\<open>pathToFileURL(p).toString()\<close>. Each \<^verbatim>\<open>get\<close> goes through \<^verbatim>\<open>has\<close> and so changes the
  cache manager.
\<close>

fun attachLocalMedia :: "cache_env \<Rightarrow> (string \<Rightarrow> string) \<Rightarrow> rat \<Rightarrow> CacheManager \<Rightarrow> TimelineItem list \<Rightarrow> TimelineItem list \<times> CacheManager" where
  "attachLocalMedia env toFileUrl now c [] = ([], c)"
| "attachLocalMedia env toFileUrl now c (item # rest) =
     (case (case str_or (ti_mediaId item) (ti_objectKey item) of
              None \<Rightarrow> (None, c)
            | Some key \<Rightarrow> if key = [] then (None, c) else get env now key c) of
        (localPath, c1) \<Rightarrow>
          (case localPath of
             None \<Rightarrow> attachLocalMedia env toFileUrl now c1 rest
           | Some p \<Rightarrow>
               if p = [] then attachLocalMedia env toFileUrl now c1 rest
               else (case attachLocalMedia env toFileUrl now c1 rest of
                       (hydrated, c2) \<Rightarrow>
                         (item\<lparr>ti_localPath := Some p, ti_localUrl := Some (toFileUrl p)\<rparr> # hydrated, c2))))"

text \<open>
  The items of a list that the cache holds, in the order of the list, each with the
  path the cache holds it under and the file URL of that path: what \<^verbatim>\<open>attachLocalMedia\<close>
  is to compute, written as a filter over the cache as it is when the loop starts.
\<close>

definition hydrate :: "cache_env \<Rightarrow> (string \<Rightarrow> string) \<Rightarrow> CacheManager \<Rightarrow> TimelineItem \<Rightarrow> TimelineItem option" where
  "hydrate env toFileUrl c item =
     (case str_or (ti_mediaId item) (ti_objectKey item) of
        None \<Rightarrow> None
      | Some key \<Rightarrow>
          if key = [] then None
          else (case held_path env c key of
                  None \<Rightarrow> None
                | Some p \<Rightarrow>
                    if p = [] then None
                    else Some (item\<lparr>ti_localPath := Some p, ti_localUrl := Some (toFileUrl p)\<rparr>)))"

definition held_items :: "cache_env \<Rightarrow> (string \<Rightarrow> string) \<Rightarrow> CacheManager \<Rightarrow> TimelineItem list \<Rightarrow> TimelineItem list" where
  "held_items env toFileUrl c its = List.map_filter (hydrate env toFileUrl c) its"

text \<open>The mode and the candidate items of \<^verbatim>\<open>buildPlaylist\<close>, before the cache is asked.\<close>

definition select_items :: "NormalizedSnapshot \<Rightarrow> PlaybackMode \<Rightarrow> PlaybackMode \<times> TimelineItem list" where
  "select_items snapshot fallbackMode =
     (case emergencyItem snapshot of
        Some e \<Rightarrow> (mode_emergency, [e])
      | None \<Rightarrow>
          if length (items snapshot) > 0 then (mode_normal, items snapshot)
          else (case defaultItem snapshot of
                  Some d \<Rightarrow> (mode_default, [d])
                | None \<Rightarrow> (fallbackMode, [])))"

definition buildPlaylist :: "cache_env \<Rightarrow> (string \<Rightarrow> string) \<Rightarrow> rat \<Rightarrow> NormalizedSnapshot \<Rightarrow> PlaybackMode \<Rightarrow> CacheManager \<Rightarrow> PlaybackPlaylist \<times> CacheManager" where
  "buildPlaylist env toFileUrl now snapshot fallbackMode c =
     (case select_items snapshot fallbackMode of
        (mode, its) \<Rightarrow>
          (case attachLocalMedia env toFileUrl now c its of
             (hydrated, c1) \<Rightarrow>
               (\<lparr>pl_mode = mode, pl_items = hydrated, pl_scheduleId = scheduleId snapshot,
                 pl_snapshotId = snapshotId snapshot, pl_lastSnapshotAt = Some (fetchedAt snapshot)\<rparr>,
                c1)))"

text \<open>
  \<^verbatim>\<open>cacheSnapshotMedia\<close>: the loop over the items, the emergency item and the default
  item. A failed \<^verbatim>\<open>add\<close> is logged and passed over, unless its reason is \<^verbatim>\<open>URL_EXPIRED\<close>:
  that error is thrown on and ends the loop.
\<close>

fun cache_items :: "cache_env \<Rightarrow> rat \<Rightarrow> CacheManager \<Rightarrow> TimelineItem list \<Rightarrow> (CacheError + unit) \<times> CacheManager" where
  "cache_items env now c [] = (Inr (), c)"
| "cache_items env now c (item # rest) =
     (case (ti_mediaId item, ti_remoteUrl item) of
        (Some mid, Some url) \<Rightarrow>
          if mid = [] \<or> url = [] then cache_items env now c rest
          else (case add env now mid url (ti_sha256 item) c of
                  (Inr u, c1) \<Rightarrow> cache_items env now c1 rest
                | (Inl e, c1) \<Rightarrow>
                    if reason e = Some ''URL_EXPIRED'' then (Inl e, c1)
                    else cache_items env now c1 rest)
      | _ \<Rightarrow> cache_items env now c rest)"

definition cacheSnapshotMedia :: "cache_env \<Rightarrow> rat \<Rightarrow> NormalizedSnapshot \<Rightarrow> CacheManager \<Rightarrow> (CacheError + unit) \<times> CacheManager" where
  "cacheSnapshotMedia env now snapshot c =
     cache_items env now c
       (items snapshot @
        (case emergencyItem snapshot of Some e \<Rightarrow> [e] | None \<Rightarrow> []) @
        (case defaultItem snapshot of Some d \<Rightarrow> [d] | None \<Rightarrow> []))"

text \<open>
  The state of a \<^verbatim>\<open>SnapshotManager\<close>, with the cache manager it calls. Two fields record
  effects: the playlists emitted as \<^verbatim>\<open>playlist-updated\<close>, latest first, and the number of
  snapshot requests sent so far.
\<close>

record SnapshotManager =
  currentSnapshot :: "NormalizedSnapshot option"
  currentPlaylist :: "PlaybackPlaylist option"
  lastError :: "string option"
  cache :: CacheManager
  emitted :: "PlaybackPlaylist list"
  requests :: nat

text \<open>
  What one run of the \<^verbatim>\<open>try\<close> block of \<^verbatim>\<open>refreshSnapshot\<close> meets before it caches
  media: the request, the check of \<^verbatim>\<open>success\<close>, the parse and the write of the snapshot
  file either throw (an error with the HTTP status of its response, if it has one, and
  a message) or yield the normalized snapshot.
\<close>

datatype attempt_outcome = Throws "nat option" string | Parsed NormalizedSnapshot

text \<open>
  The world of a refresh cycle. The \<open>k\<close>-th request of the cycle meets \<open>attempt k\<close>; the
  downloads that follow it meet \<open>env_at k\<close> (a signed URL that worked may have expired
  since, a fresh one works); \<open>clock k\<close> is the time then.
\<close>

record world =
  deviceId :: "string option"
  attempt :: "nat \<Rightarrow> attempt_outcome"
  env_at :: "nat \<Rightarrow> cache_env"
  clock :: "nat \<Rightarrow> rat"
  pathToFileURL :: "string \<Rightarrow> string"

definition emit_playlist :: "PlaybackPlaylist \<Rightarrow> SnapshotManager \<Rightarrow> SnapshotManager" where
  "emit_playlist playlist m = m\<lparr>currentPlaylist := Some playlist, emitted := playlist # emitted m\<rparr>"

text \<open>\<^verbatim>\<open>applyOfflineFallback\<close>, called while the \<open>k\<close>-th request of the cycle is handled.\<close>

definition applyOfflineFallback :: "world \<Rightarrow> nat \<Rightarrow> string \<Rightarrow> SnapshotManager \<Rightarrow> PlaybackPlaylist option \<times> SnapshotManager" where
  "applyOfflineFallback w k why m =
     (let m1 = m\<lparr>lastError := Some why\<rparr> in
      case currentSnapshot m1 of
        Some snapshot \<Rightarrow>
          (case buildPlaylist (env_at w k) (pathToFileURL w) (clock w k) snapshot mode_offline (cache m1) of
             (playlist, c1) \<Rightarrow> (Some playlist, emit_playlist playlist (m1\<lparr>cache := c1\<rparr>)))
      | None \<Rightarrow>
          (let playlist = \<lparr>pl_mode = mode_empty, pl_items = [], pl_scheduleId = None,
                           pl_snapshotId = None,
                           pl_lastSnapshotAt =
                             (case currentPlaylist m1 of
                                Some p \<Rightarrow> pl_lastSnapshotAt p
                              | None \<Rightarrow> None)\<rparr>
           in (Some playlist, emit_playlist playlist m1)))"

text \<open>
  One pass of \<^verbatim>\<open>refreshSnapshot\<close>: the body of the function, with what it does on a
  \<^verbatim>\<open>URL_EXPIRED\<close> error while the retry flag is set left to the argument \<open>retry\<close>.
  \<^verbatim>\<open>cacheSnapshotMedia\<close> throws nothing but \<^verbatim>\<open>URL_EXPIRED\<close> errors, which carry no HTTP
  response; \<^verbatim>\<open>buildPlaylist\<close> is called with the fallback mode \<^verbatim>\<open>'normal'\<close>.
\<close>

definition refresh_pass :: "world \<Rightarrow> bool \<Rightarrow> (SnapshotManager \<Rightarrow> PlaybackPlaylist option \<times> SnapshotManager) \<Rightarrow> SnapshotManager \<Rightarrow> PlaybackPlaylist option \<times> SnapshotManager" where
  "refresh_pass w retryOnExpired retry m =
     (if missing (deviceId w) then (None, m)
      else
        let k = requests m; m1 = m\<lparr>requests := Suc k\<rparr> in
        case attempt w k of
          Throws status msg \<Rightarrow>
            if status = Some 404 then applyOfflineFallback w k ''No published snapshot available'' m1
            else applyOfflineFallback w k msg m1
        | Parsed normalized \<Rightarrow>
            (case cacheSnapshotMedia (env_at w k) (clock w k) normalized (cache m1) of
               (Inl e, c1) \<Rightarrow>
                 if reason e = Some ''URL_EXPIRED'' \<and> retryOnExpired then retry (m1\<lparr>cache := c1\<rparr>)
                 else applyOfflineFallback w k (message e) (m1\<lparr>cache := c1\<rparr>)
             | (Inr u, c1) \<Rightarrow>
                 (case buildPlaylist (env_at w k) (pathToFileURL w) (clock w k) normalized mode_normal c1 of
                    (playlist, c2) \<Rightarrow>
                      (Some playlist,
                       emit_playlist playlist
                         (m1\<lparr>cache := c2, currentSnapshot := Some normalized, lastError := None\<rparr>)))))"

text \<open>
  \<^verbatim>\<open>refreshSnapshot(retryOnExpired)\<close>. The recursive call passes \<^verbatim>\<open>false\<close>, so the
  recursion is on the flag; with the flag down the pass never retries, and its last
  argument is not used.
\<close>

function refreshSnapshot :: "world \<Rightarrow> bool \<Rightarrow> SnapshotManager \<Rightarrow> PlaybackPlaylist option \<times> SnapshotManager" where
  "refreshSnapshot w False m = refresh_pass w False (\<lambda>m'. (None, m')) m"
| "refreshSnapshot w True m = refresh_pass w True (\<lambda>m'. refreshSnapshot w False m') m"
  by pat_completeness auto
termination
  by (relation "measure (\<lambda>(w, retryOnExpired, m). if retryOnExpired then 1 else 0)") auto



section \<open>Certificate manager: renewal check\<close>

text \<open>
  \<^verbatim>\<open>CertificateInfo\<close> as \<^verbatim>\<open>getCertificateInfo\<close> returns it. The two dates are
  JavaScript \<^verbatim>\<open>Date\<close> objects; the model keeps what \<^verbatim>\<open>getTime()\<close> reads from them,
  whole milliseconds since the epoch.
\<close>

record CertificateInfo =
  subject :: string
  issuer :: string
  validFrom :: int
  validTo :: int
  serialNumber :: string
  fingerprint :: string

text \<open>
  \<^verbatim>\<open>needsRenewal\<close>. Its three readings of the outside world are arguments:
  \<^verbatim>\<open>config.mtls.renewBeforeDays\<close>, the clock (\<^verbatim>\<open>new Date().getTime()\<close>) and the result of
  \<^verbatim>\<open>getCertificateInfo()\<close>, which is \<open>None\<close> when the certificate file is missing, when
  the X509 parser is not available and when parsing fails.
  \<^verbatim>\<open>Math.floor(x / (1000 * 60 * 60 * 24))\<close> on whole milliseconds is \<open>div\<close> on \<open>int\<close>,
  which rounds towards minus infinity as \<^verbatim>\<open>Math.floor\<close> does.
\<close>

definition msPerDay :: int where
  "msPerDay = 1000 * 60 * 60 * 24"

definition needsRenewal :: "int \<Rightarrow> int \<Rightarrow> CertificateInfo option \<Rightarrow> bool" where
  "needsRenewal renewBeforeDays now certInfo =
     (case certInfo of
        None \<Rightarrow> True
      | Some info \<Rightarrow>
          (let daysUntilExpiry = (validTo info - now) div msPerDay
           in if daysUntilExpiry \<le> renewBeforeDays then True else False))"

section \<open>Playback engine\<close>

datatype PlaybackState = st_stopped | st_playing | st_paused | st_error | st_emergency

text \<open>What the engine sends to the renderer (\<^verbatim>\<open>webContents.send\<close>) and what it emits.\<close>

datatype renderer_message =
    MediaChange TimelineItem                   \<comment> \<open>\<^verbatim>\<open>media-change\<close>\<close>
  | TransitionStart TimelineItem TimelineItem rat  \<comment> \<open>\<^verbatim>\<open>playback-update\<close>, type \<^verbatim>\<open>transition-start\<close>\<close>
  | ShowFallback string                        \<comment> \<open>\<^verbatim>\<open>playback-update\<close>, type \<^verbatim>\<open>show-fallback\<close>\<close>

datatype engine_event =
    PlaybackStopped
  | PlaybackError string string   \<comment> \<open>\<^verbatim>\<open>new PlaybackError(message, {error})\<close>\<close>
  | ItemPlaying TimelineItem
  | ItemCompleted TimelineItem

text \<open>
  The state of a \<^verbatim>\<open>PlaybackEngine\<close>. \<open>scheduled\<close> is its \<^verbatim>\<open>TimelineScheduler\<close>, as far as
  the engine drives it: the items it was started with, or \<open>None\<close> once stopped.
  \<open>hasWindow\<close> says whether \<^verbatim>\<open>initialize\<close> has set \<^verbatim>\<open>mainWindow\<close>. The last two fields
  record effects, latest first.
\<close>

record PlaybackEngine =
  state :: PlaybackState
  scheduled :: "TimelineItem list option"
  hasWindow :: bool
  currentItem :: "TimelineItem option"
  currentScheduleId :: "string option"
  errorCount :: nat
  sent :: "renderer_message list"
  events :: "engine_event list"
















section \<open>Command processor\<close>

text \<open>
  A command as the processor reads it: its identifier, its type (a string; the
  \<^verbatim>\<open>switch\<close> has a default branch for a type it does not know) and, of its parameters,
  whether \<^verbatim>\<open>params.force === true\<close>.
\<close>

record Command =
  cmd_id :: string
  cmd_type :: string
  cmd_force :: bool

record CommandResult =
  cr_success :: bool
  cr_message :: "string option"
  cr_error :: "string option"
  cr_data :: "string option"
  cr_timestamp :: int

text \<open>A request handed to the request queue for a later try.\<close>

record QueuedRequest =
  rq_method :: string
  rq_url :: string
  rq_data :: jsval
  rq_maxRetries :: nat

text \<open>
  The state of a \<^verbatim>\<open>CommandProcessor\<close>. \<^verbatim>\<open>commandHistory\<close> and \<^verbatim>\<open>rateLimitMap\<close> are
  \<^verbatim>\<open>Map\<close>s, kept in insertion order. Times are readings of \<^verbatim>\<open>Date.now()\<close>, whole
  milliseconds. Four fields record effects, latest first: the acknowledgements the
  server received (the URL and the body of each \<^verbatim>\<open>POST\<close> that succeeded), the
  acknowledgements put on the request queue, the entries \<^verbatim>\<open>'Command acknowledged'\<close> of
  the debug log (the command and the \<^verbatim>\<open>success\<close> flag of its result), and the commands
  handed to a handler, each with its type and the time at which the rate limit let it
  through.
\<close>

record CommandProcessor =
  processingCommands :: "string list"
  commandHistory :: "(string \<times> CommandResult) list"
  rateLimitMap :: "(string \<times> int) list"
  posted :: "(string \<times> jsval) list"
  queued :: "QueuedRequest list"
  ack_logged :: "(string \<times> bool) list"
  dispatched :: "(string \<times> string \<times> int) list"

definition maxHistorySize :: nat where
  "maxHistorySize = 100"

definition rateLimitWindowMs :: int where
  "rateLimitWindowMs = 60000"

text \<open>\<^verbatim>\<open>isRateLimited\<close>; \<^verbatim>\<open>!lastExecution\<close> holds of a missing entry and of the time 0.\<close>

definition isRateLimited :: "CommandProcessor \<Rightarrow> string \<Rightarrow> int \<Rightarrow> bool" where
  "isRateLimited p commandType now =
     (case map_of (rateLimitMap p) commandType of
        None \<Rightarrow> False
      | Some lastExecution \<Rightarrow>
          if lastExecution = 0 then False
          else now - lastExecution < rateLimitWindowMs)"

definition updateRateLimit :: "string \<Rightarrow> int \<Rightarrow> CommandProcessor \<Rightarrow> CommandProcessor" where
  "updateRateLimit commandType now p = p\<lparr>rateLimitMap := AList.update commandType now (rateLimitMap p)\<rparr>"

text \<open>
  What an acknowledgement meets outside the processor: the device id the pairing
  service holds at that moment, if any, whether the \<^verbatim>\<open>POST\<close> of the acknowledgement
  succeeds and, when it does not, whether the request queue accepts the retry.
\<close>

record ack_world =
  paired_as :: "string option"
  post_succeeds :: bool
  enqueue_succeeds :: bool

definition ack_url :: "string \<Rightarrow> string \<Rightarrow> string" where
  "ack_url device commandId = ''/v1/device/'' @ device @ ''/commands/'' @ commandId @ ''/ack''"

text \<open>
  \<^verbatim>\<open>acknowledgeCommand\<close>. Without a device id it returns at once. Otherwise it posts the
  empty object \<^verbatim>\<open>{}\<close> to the acknowledgement URL of the command: the result it was
  given is not sent, and only its \<^verbatim>\<open>success\<close> flag reaches the debug log, after a
  \<^verbatim>\<open>POST\<close> that succeeded. When the \<^verbatim>\<open>POST\<close> fails, the same request, again with the body
  \<^verbatim>\<open>{}\<close>, is put on the request queue with three retries; a failure of that is logged
  and nothing else happens. The function never throws.
\<close>

definition acknowledgeCommand :: "ack_world \<Rightarrow> string \<Rightarrow> CommandResult \<Rightarrow> CommandProcessor \<Rightarrow> CommandProcessor" where
  "acknowledgeCommand aw commandId result p =
     (case paired_as aw of
        None \<Rightarrow> p
      | Some device \<Rightarrow>
          if device = [] then p
          else if post_succeeds aw then
            p\<lparr>posted := (ack_url device commandId, JObj []) # posted p,
              ack_logged := (commandId, cr_success result) # ack_logged p\<rparr>
          else if enqueue_succeeds aw then
            p\<lparr>queued := \<lparr>rq_method = ''POST'', rq_url = ack_url device commandId,
                           rq_data = JObj [], rq_maxRetries = 3\<rparr> # queued p\<rparr>
          else p)"

text \<open>
  What the collaborator behind a handler does (the schedule manager, the screenshot
  service, the cache manager): it returns, with the object key in the case of a
  screenshot, or it throws. Every handler that calls one catches the throw and returns
  a result with \<^verbatim>\<open>success: false\<close>; no handler throws.
\<close>

datatype collaborator_outcome = Returned string | Threw string

definition succeeded :: "string \<Rightarrow> string option \<Rightarrow> int \<Rightarrow> CommandResult" where
  "succeeded msg payload now =
     \<lparr>cr_success = True, cr_message = Some msg, cr_error = None, cr_data = payload, cr_timestamp = now\<rparr>"

definition failed :: "string \<Rightarrow> int \<Rightarrow> CommandResult" where
  "failed err now =
     \<lparr>cr_success = False, cr_message = None, cr_error = Some err, cr_data = None, cr_timestamp = now\<rparr>"

text \<open>The \<^verbatim>\<open>switch\<close> of \<^verbatim>\<open>processCommand\<close> with the six handlers.\<close>

definition dispatch :: "Command \<Rightarrow> collaborator_outcome \<Rightarrow> int \<Rightarrow> CommandResult" where
  "dispatch command outcome now =
     (if cmd_type command = ''REBOOT'' then succeeded ''Reboot initiated'' None now
      else if cmd_type command = ''REFRESH_SCHEDULE'' then
        (case outcome of
           Returned x \<Rightarrow> succeeded ''Schedule refreshed'' None now
         | Threw err \<Rightarrow> failed err now)
      else if cmd_type command = ''SCREENSHOT'' then
        (case outcome of
           Returned objectKey \<Rightarrow> succeeded ''Screenshot captured'' (Some objectKey) now
         | Threw err \<Rightarrow> failed err now)
      else if cmd_type command = ''TEST_PATTERN'' then succeeded ''Test pattern displayed'' None now
      else if cmd_type command = ''CLEAR_CACHE'' then
        (case outcome of
           Returned x \<Rightarrow> succeeded ''Cache cleared'' None now
         | Threw err \<Rightarrow> failed err now)
      else if cmd_type command = ''PING'' then succeeded ''Pong'' (Some ''uptime, version'') now
      else failed (''Unknown command type: '' @ cmd_type command) now)"

text \<open>
  \<^verbatim>\<open>commandHistory.set\<close> and the eviction of the oldest key once the history holds more
  than \<^verbatim>\<open>maxHistorySize\<close> results.
\<close>

definition remember :: "string \<Rightarrow> CommandResult \<Rightarrow> CommandProcessor \<Rightarrow> CommandProcessor" where
  "remember commandId result p =
     (let h = AList.update commandId result (commandHistory p) in
      p\<lparr>commandHistory := (if length h > maxHistorySize then tl h else h)\<rparr>)"

text \<open>
  One command as it arrives: \<open>checked_at\<close> is the clock when \<^verbatim>\<open>isRateLimited\<close> reads it,
  \<open>finished_at\<close> the clock when \<^verbatim>\<open>updateRateLimit\<close> reads it, after the handler and the
  acknowledgement; \<open>ack\<close> is what the one acknowledgement of the command meets.
\<close>

record arrival =
  command :: Command
  checked_at :: int
  finished_at :: int
  collaborator :: collaborator_outcome
  ack :: ack_world

text \<open>
  \<^verbatim>\<open>processCommand\<close> in its two halves. The first runs without a pause from the entry of
  the function into the handler: the check of the set in process, the check of the rate
  limit (a command it refuses is acknowledged and dropped) and the entry into that set.
  It answers whether the command was handed to its handler. The second half is what
  follows the handler's work: the result, the history, the acknowledgement, the new
  rate-limit time of the type and, in the \<^verbatim>\<open>finally\<close> block, the removal from the set in
  process. Since no handler throws and \<^verbatim>\<open>acknowledgeCommand\<close> catches what it meets, the
  \<^verbatim>\<open>catch\<close> block of the function is never entered.
\<close>

definition begin_command :: "arrival \<Rightarrow> CommandProcessor \<Rightarrow> bool \<times> CommandProcessor" where
  "begin_command a p =
     (let c = command a in
      if cmd_id c \<in> set (processingCommands p) then (False, p)
      else if isRateLimited p (cmd_type c) (checked_at a) then
        (False, acknowledgeCommand (ack a) (cmd_id c) (failed ''Rate limited'' (checked_at a)) p)
      else
        (True, p\<lparr>processingCommands := cmd_id c # processingCommands p,
                  dispatched := (cmd_id c, cmd_type c, checked_at a) # dispatched p\<rparr>))"

definition finish_command :: "arrival \<Rightarrow> CommandProcessor \<Rightarrow> CommandProcessor" where
  "finish_command a p =
     (let c = command a;
          result = dispatch c (collaborator a) (finished_at a);
          p2 = remember (cmd_id c) result p;
          p3 = acknowledgeCommand (ack a) (cmd_id c) result p2;
          p4 = updateRateLimit (cmd_type c) (finished_at a) p3
      in p4\<lparr>processingCommands := removeAll (cmd_id c) (processingCommands p4)\<rparr>)"

text \<open>\<^verbatim>\<open>processCommand\<close>, run from its first line to its last.\<close>

definition processCommand :: "arrival \<Rightarrow> CommandProcessor \<Rightarrow> CommandProcessor" where
  "processCommand a p =
     (case begin_command a p of
        (False, p1) \<Rightarrow> p1
      | (True, p1) \<Rightarrow> finish_command a p1)"

text \<open>The loop of \<^verbatim>\<open>pollCommands\<close>: the commands are processed one after the other.\<close>

fun process_all :: "arrival list \<Rightarrow> CommandProcessor \<Rightarrow> CommandProcessor" where
  "process_all [] p = p"
| "process_all (a # rest) p = process_all rest (processCommand a p)"

definition new_processor :: CommandProcessor where
  "new_processor =
     \<lparr>processingCommands = [], commandHistory = [], rateLimitMap = [],
      posted = [], queued = [], ack_logged = [], dispatched = []\<rparr>"

text \<open>
  The clock of a run that starts at \<open>t\<close>: no reading of \<^verbatim>\<open>Date.now()\<close> is earlier than
  the one before it.
\<close>

fun clock_runs_on :: "int \<Rightarrow> arrival list \<Rightarrow> bool" where
  "clock_runs_on t [] = True"
| "clock_runs_on t (a # rest) =
     (t \<le> checked_at a \<and> checked_at a \<le> finished_at a \<and> clock_runs_on (finished_at a) rest)"

text \<open>Any two dispatches of one command type in a log lie a full window apart.\<close>

fun separated :: "(string \<times> string \<times> int) list \<Rightarrow> bool" where
  "separated [] = True"
| "separated ((i, ty, t) # rest) =
     (list_all (\<lambda>(j, ty', t'). ty' = ty \<longrightarrow> t - t' \<ge> rateLimitWindowMs) rest \<and> separated rest)"

text \<open>
  What a run of the processor keeps true at time \<open>t\<close>: the dispatches so far are
  separated, and the rate-limit time of the type of each is a positive time between
  that dispatch and \<open>t\<close>. A new processor satisfies it at any time.
\<close>

definition rate_sound :: "int \<Rightarrow> CommandProcessor \<Rightarrow> bool" where
  "rate_sound t p =
     (separated (dispatched p) \<and>
      list_all (\<lambda>(i, ty, td).
                  case map_of (rateLimitMap p) ty of
                    None \<Rightarrow> False
                  | Some lastExecution \<Rightarrow>
                      0 < lastExecution \<and> td \<le> lastExecution \<and> lastExecution \<le> t)
               (dispatched p))"

section \<open>Example inputs\<close>

text \<open>
  The examples below print no number, and the one text they read as a number is no
  numeral, so a runtime that reads every text as \<open>NaN\<close> serves them and makes them
  closed terms.
\<close>

definition example_runtime :: js_runtime where
  "example_runtime = \<lparr>numberToString = (\<lambda>n. ''NaN''), stringToNumber = (\<lambda>s. NaN)\<rparr>"






text \<open>Scenario S2 of the specification: a schedule of two items.\<close>

definition example_snapshot :: jsval where
  "example_snapshot =
     JObj [(''schedule'',
            JObj [(''id'', JStr ''s1''),
                  (''items'',
                   JArr [JObj [(''id'', JStr ''i1''), (''media_id'', JStr ''m1''),
                               (''media_url'', JStr ''https://u/1.png''),
                               (''display_ms'', JNum (Fin 5000))],
                         JObj [(''id'', JStr ''i2''), (''media_id'', JStr ''m2''),
                               (''media_url'', JStr ''https://u/2.mp4'')]])])]"

definition example_bad_items :: jsval where
  "example_bad_items = JObj [(''items'', JNum (Fin 5))]"

definition example_random :: "nat \<Rightarrow> string" where
  "example_random k = ''k3x9qa''"

text \<open>
  A cache of 100 MiB that holds one image, and a network that answers every download
  with a body of four bytes.
\<close>

definition example_cache_env :: cache_env where
  "example_cache_env =
     \<lparr>sanitizeFilename = (\<lambda>s. s), calculateBufferHash = (\<lambda>d. ''9f86d081''),
      urlPathname = (\<lambda>u. Some u), extname = (\<lambda>p. ''.png''),
      fetch = (\<lambda>u. Inr ''JFIF''), pending = (\<lambda>m. None)\<rparr>"

definition example_entry :: "rat \<Rightarrow> CacheEntry" where
  "example_entry t =
     \<lparr>ce_mediaId = ''m1'', ce_sha256 = ''9f86d081'', ce_size = 4, ce_lastUsedAt = t,
      ce_localPath = ''/var/cache/media/m1.png'', ce_status = ready\<rparr>"

definition example_cache :: "rat \<Rightarrow> CacheManager" where
  "example_cache t =
     \<lparr>cacheDir = ''/var/cache/media'', maxBytes = 104857600,
      entries = [(''m1'', example_entry t)], nowPlaying = [], inFlight = [],
      disk = [(''m1.png'', 4)], warnings = [], downloads = []\<rparr>"

text \<open>
  The boundary case of the specification: a body of 150 MiB offered to an empty cache
  of 100 MiB.
\<close>

definition example_big_body :: string where
  "example_big_body = replicate 157286400 (CHR ''x'')"

definition example_big_env :: cache_env where
  "example_big_env =
     \<lparr>sanitizeFilename = (\<lambda>s. s), calculateBufferHash = (\<lambda>d. ''0a4d55a8''),
      urlPathname = (\<lambda>u. Some u), extname = (\<lambda>p. ''.mp4''),
      fetch = (\<lambda>u. Inr example_big_body), pending = (\<lambda>m. None)\<rparr>"

definition example_empty_cache :: CacheManager where
  "example_empty_cache =
     \<lparr>cacheDir = ''/var/cache/media'', maxBytes = 104857600,
      entries = [], nowPlaying = [], inFlight = [],
      disk = [], warnings = [], downloads = []\<rparr>"


text \<open>
  Scenario S3 of the specification, after parsing: an emergency item over a schedule of
  one item, and a cache that holds the emergency video.
\<close>

definition example_emergency_item :: TimelineItem where
  "example_emergency_item =
     \<lparr>ti_id = ''em1'', ti_mediaId = Some ''em1'', ti_objectKey = None, ti_type = ''video'',
      ti_remoteUrl = Some ''https://u/e.mp4'', ti_localPath = None, ti_localUrl = None,
      ti_displayMs = 10000, ti_fit = contain, ti_muted = False, ti_sha256 = None,
      ti_transitionDurationMs = 0\<rparr>"

definition example_scheduled_item :: TimelineItem where
  "example_scheduled_item =
     \<lparr>ti_id = ''i1'', ti_mediaId = Some ''m1'', ti_objectKey = None, ti_type = ''image'',
      ti_remoteUrl = Some ''https://u/1.png'', ti_localPath = None, ti_localUrl = None,
      ti_displayMs = 5000, ti_fit = contain, ti_muted = False, ti_sha256 = None,
      ti_transitionDurationMs = 0\<rparr>"

definition example_emergency_snapshot :: NormalizedSnapshot where
  "example_emergency_snapshot =
     \<lparr>snapshotId = None, scheduleId = Some ''s1'', items = [example_scheduled_item],
      emergencyItem = Some example_emergency_item, defaultItem = None,
      fetchedAt = ''2026-01-01T00:00:00.000Z''\<rparr>"

definition example_file_url :: "string \<Rightarrow> string" where
  "example_file_url p = ''file://'' @ p"

definition example_emergency_cache :: CacheManager where
  "example_emergency_cache =
     \<lparr>cacheDir = ''/var/cache/media'', maxBytes = 104857600,
      entries = [(''em1'', \<lparr>ce_mediaId = ''em1'', ce_sha256 = ''0a4d55a8'', ce_size = 4,
                            ce_lastUsedAt = 0, ce_localPath = ''/var/cache/media/em1.mp4'',
                            ce_status = ready\<rparr>)],
      nowPlaying = [], inFlight = [],
      disk = [(''em1.mp4'', 4)], warnings = [], downloads = []\<rparr>"

text \<open>
  A schedule of two items, the first of a media the cache \<open>example_cache\<close> does not
  hold, the second of the one it holds.
\<close>

definition example_uncached_item :: TimelineItem where
  "example_uncached_item =
     \<lparr>ti_id = ''i9'', ti_mediaId = Some ''m9'', ti_objectKey = None, ti_type = ''video'',
      ti_remoteUrl = Some ''https://u/9.mp4'', ti_localPath = None, ti_localUrl = None,
      ti_displayMs = 10000, ti_fit = contain, ti_muted = False, ti_sha256 = None,
      ti_transitionDurationMs = 0\<rparr>"

definition example_mixed_snapshot :: NormalizedSnapshot where
  "example_mixed_snapshot =
     \<lparr>snapshotId = None, scheduleId = Some ''s1'',
      items = [example_uncached_item, example_scheduled_item],
      emergencyItem = None, defaultItem = None, fetchedAt = ''2026-01-01T00:00:00.000Z''\<rparr>"

text \<open>
  Scenario S4 of the specification: the first snapshot carries a signed URL that has
  expired (the download answers 403), the snapshot fetched again carries a fresh one.
  In the second world the fresh URL is refused as well.
\<close>

definition example_item_signed :: "string \<Rightarrow> TimelineItem" where
  "example_item_signed url =
     \<lparr>ti_id = ''i1'', ti_mediaId = Some ''m1'', ti_objectKey = None, ti_type = ''image'',
      ti_remoteUrl = Some url, ti_localPath = None, ti_localUrl = None,
      ti_displayMs = 5000, ti_fit = contain, ti_muted = False, ti_sha256 = None,
      ti_transitionDurationMs = 0\<rparr>"

definition example_snapshot_signed :: "string \<Rightarrow> NormalizedSnapshot" where
  "example_snapshot_signed url =
     \<lparr>snapshotId = None, scheduleId = Some ''s1'', items = [example_item_signed url],
      emergencyItem = None, defaultItem = None, fetchedAt = ''2026-01-01T00:00:00.000Z''\<rparr>"

definition example_expiring_env :: "bool \<Rightarrow> cache_env" where
  "example_expiring_env fresh_works =
     \<lparr>sanitizeFilename = (\<lambda>s. s), calculateBufferHash = (\<lambda>d. ''9f86d081''),
      urlPathname = (\<lambda>u. Some u), extname = (\<lambda>p. ''.png''),
      fetch = (\<lambda>u. if fresh_works \<and> u = ''https://u/1.png?sig=new'' then Inr ''JFIF''
                    else Inl (Some 403)),
      pending = (\<lambda>m. None)\<rparr>"

definition example_world :: "bool \<Rightarrow> world" where
  "example_world fresh_works =
     \<lparr>deviceId = Some ''dev-1'',
      attempt = (\<lambda>k. if k = 0 then Parsed (example_snapshot_signed ''https://u/1.png?sig=old'')
                     else Parsed (example_snapshot_signed ''https://u/1.png?sig=new'')),
      env_at = (\<lambda>k. example_expiring_env fresh_works),
      clock = (\<lambda>k. 1000 + of_nat k),
      pathToFileURL = example_file_url\<rparr>"

definition example_manager :: SnapshotManager where
  "example_manager =
     \<lparr>currentSnapshot = None, currentPlaylist = None, lastError = None,
      cache = example_empty_cache, emitted = [], requests = 0\<rparr>"

definition expired_error :: CacheError where
  "expired_error = \<lparr>message = ''Presigned URL expired'', reason = Some ''URL_EXPIRED''\<rparr>"

text \<open>
  The same expiry met by a manager that holds a snapshot from an earlier cycle, of one
  item whose image is in the cache: the fetched snapshots name a new image, whose signed
  URL is refused both times.
\<close>

definition example_item_fresh :: "string \<Rightarrow> TimelineItem" where
  "example_item_fresh url =
     \<lparr>ti_id = ''i2'', ti_mediaId = Some ''m2'', ti_objectKey = None, ti_type = ''image'',
      ti_remoteUrl = Some url, ti_localPath = None, ti_localUrl = None,
      ti_displayMs = 5000, ti_fit = contain, ti_muted = False, ti_sha256 = None,
      ti_transitionDurationMs = 0\<rparr>"

definition example_snapshot_fresh :: "string \<Rightarrow> NormalizedSnapshot" where
  "example_snapshot_fresh url =
     \<lparr>snapshotId = None, scheduleId = Some ''s2'', items = [example_item_fresh url],
      emergencyItem = None, defaultItem = None, fetchedAt = ''2026-01-02T00:00:00.000Z''\<rparr>"

definition example_cached_snapshot :: NormalizedSnapshot where
  "example_cached_snapshot =
     \<lparr>snapshotId = None, scheduleId = Some ''s1'', items = [example_scheduled_item],
      emergencyItem = None, defaultItem = None, fetchedAt = ''2026-01-01T00:00:00.000Z''\<rparr>"

definition example_world_cached :: world where
  "example_world_cached =
     \<lparr>deviceId = Some ''dev-1'',
      attempt = (\<lambda>k. if k = 0 then Parsed (example_snapshot_fresh ''https://u/2.png?sig=old'')
                     else Parsed (example_snapshot_fresh ''https://u/2.png?sig=new'')),
      env_at = (\<lambda>k. example_expiring_env False),
      clock = (\<lambda>k. 1000 + of_nat k),
      pathToFileURL = example_file_url\<rparr>"

definition example_manager_cached :: SnapshotManager where
  "example_manager_cached =
     \<lparr>currentSnapshot = Some example_cached_snapshot, currentPlaylist = None, lastError = None,
      cache = example_cache 0, emitted = [], requests = 0\<rparr>"






text \<open>
  Scenario S5 of the specification: two screenshot commands that arrive ten seconds
  apart. The first screenshot takes \<open>d\<close> milliseconds to capture, upload and acknowledge.
  The device is paired and the server takes every acknowledgement.
\<close>

definition example_ack :: ack_world where
  "example_ack = \<lparr>paired_as = Some ''dev-1'', post_succeeds = True, enqueue_succeeds = True\<rparr>"

definition example_first :: "int \<Rightarrow> arrival" where
  "example_first d =
     \<lparr>command = \<lparr>cmd_id = ''c1'', cmd_type = ''SCREENSHOT'', cmd_force = False\<rparr>,
      checked_at = 1700000000000, finished_at = 1700000000000 + d,
      collaborator = Returned ''shots/1.png'', ack = example_ack\<rparr>"

definition example_second :: arrival where
  "example_second =
     \<lparr>command = \<lparr>cmd_id = ''c2'', cmd_type = ''SCREENSHOT'', cmd_force = False\<rparr>,
      checked_at = 1700000010000, finished_at = 1700000012000,
      collaborator = Returned ''shots/2.png'', ack = example_ack\<rparr>"

text \<open>
  The same two commands, the second with no overlap, on a clock that is set back by a
  minute while the first screenshot is taken.
\<close>

definition example_set_back :: arrival where
  "example_set_back =
     \<lparr>command = \<lparr>cmd_id = ''c1'', cmd_type = ''SCREENSHOT'', cmd_force = False\<rparr>,
      checked_at = 1700000000000, finished_at = 1699999940800,
      collaborator = Returned ''shots/1.png'', ack = example_ack\<rparr>"

section \<open>Properties\<close>

subsection \<open>Certificate renewal\<close>

lemma int_div_less_iff:
  fixes a b m :: int
  assumes "0 < m"
  shows "(a div m < b) = (a < b * m)"
proof
  assume lt: "a div m < b"
  have split: "a = (a div m) * m + a mod m" by simp
  have r: "a mod m < m" using assms by simp
  have "(a div m + 1) * m \<le> b * m"
    using lt assms by (intro mult_right_mono) auto
  then have "(a div m) * m + m \<le> b * m" by (simp add: algebra_simps)
  with split r show "a < b * m" by linarith
next
  assume lt: "a < b * m"
  show "a div m < b"
  proof (rule ccontr)
    assume "\<not> a div m < b"
    then have "b * m \<le> (a div m) * m" using assms by (intro mult_right_mono) auto
    moreover have "a = (a div m) * m + a mod m" by simp
    moreover have "0 \<le> a mod m" using assms by simp
    ultimately show False using lt by linarith
  qed
qed

text \<open>
  C6, as amended. \<^verbatim>\<open>needsRenewal\<close> answers true exactly when there is no (parsable)
  certificate or the remaining validity is less than \<open>renewBeforeDays + 1\<close> days: the
  code floors the remaining time to whole days and compares with \<open>\<le>\<close>.
\<close>

theorem needsRenewal_threshold:
  "needsRenewal renewBeforeDays now certInfo =
     (case certInfo of
        None \<Rightarrow> True
      | Some info \<Rightarrow> validTo info - now < (renewBeforeDays + 1) * msPerDay)"
proof (cases certInfo)
  case None
  then show ?thesis by (simp add: needsRenewal_def)
next
  case (Some info)
  have pos: "0 < msPerDay" by (simp add: msPerDay_def)
  have "((validTo info - now) div msPerDay \<le> renewBeforeDays) =
        ((validTo info - now) div msPerDay < renewBeforeDays + 1)"
    by linarith
  also have "\<dots> = (validTo info - now < (renewBeforeDays + 1) * msPerDay)"
    using pos by (rule int_div_less_iff)
  finally show ?thesis using Some by (simp add: needsRenewal_def)
qed

text \<open>
  C6, as stated, fails where it is most specific: with exactly thirty whole days of
  validity left and \<open>renewBeforeDays = 30\<close> the remaining time is not below thirty days,
  and \<^verbatim>\<open>needsRenewal\<close> still answers true.
\<close>

theorem needsRenewal_exact_days_counterexample:
  "needsRenewal 30 1000
     (Some \<lparr>subject = ''CN=dev-1'', issuer = ''CN=ca'', validFrom = 0,
            validTo = 1000 + 30 * msPerDay, serialNumber = ''01'', fingerprint = ''AA''\<rparr>)
   \<and> \<not> ((1000 + 30 * msPerDay) - 1000 < 30 * msPerDay)"
  by (simp add: needsRenewal_def msPerDay_def)

subsection \<open>Default-media response\<close>

lemma string_or_undefined_Some: "string_or_undefined v = Some s \<Longrightarrow> v = JStr s"
  by (cases v) auto

lemma valid_media_type_Some:
  "valid_media_type v = Some t \<Longrightarrow> v = JStr (default_media_type_name t)"
  by (cases t) (auto simp: valid_media_type_def split: if_splits)

lemma normalizeMediaItem_Some:
  assumes "normalizeMediaItem input = Some item"
  shows "get_prop input ''id'' = JStr (dm_id item) \<and> dm_id item \<noteq> []
       \<and> get_prop input ''type'' = JStr (default_media_type_name (dm_type item))
       \<and> get_prop input ''media_url'' = JStr (dm_media_url item) \<and> dm_media_url item \<noteq> []"
proof -
  from assms obtain i t u where
    i: "string_or_undefined (get_prop input ''id'') = Some i" "i \<noteq> []" and
    t: "valid_media_type (get_prop input ''type'') = Some t" and
    u: "string_or_undefined (get_prop input ''media_url'') = Some u" "u \<noteq> []" and
    item: "dm_id item = i" "dm_type item = t" "dm_media_url item = u"
    by (cases "string_or_undefined (get_prop input ''id'')";
        cases "valid_media_type (get_prop input ''type'')";
        cases "string_or_undefined (get_prop input ''media_url'')")
       (auto simp: normalizeMediaItem_def Let_def split: if_splits)
  then show ?thesis
    by (simp add: string_or_undefined_Some valid_media_type_Some)
qed

text \<open>
  C10. The result of \<^verbatim>\<open>normalizeDefaultMediaResponse\<close> is all or nothing: either
  \<^verbatim>\<open>media_id\<close> and \<^verbatim>\<open>media\<close> are both \<^verbatim>\<open>null\<close>, or \<^verbatim>\<open>media_id\<close> is the (non-empty)
  string the input carries and \<^verbatim>\<open>media\<close> is an item whose \<^verbatim>\<open>id\<close> and \<^verbatim>\<open>media_url\<close> are
  the (non-empty) strings of the input's \<^verbatim>\<open>media\<close> object and whose \<^verbatim>\<open>type\<close> is the one
  of IMAGE, VIDEO, DOCUMENT that the input names.
\<close>

theorem normalizeDefaultMediaResponse_all_or_nothing:
  "(media_id (normalizeDefaultMediaResponse rawv) = None \<and>
    media (normalizeDefaultMediaResponse rawv) = None)
   \<or> (\<exists>mid item.
         normalizeDefaultMediaResponse rawv = \<lparr>media_id = Some mid, media = Some item\<rparr>
         \<and> get_prop rawv ''media_id'' = JStr mid \<and> mid \<noteq> []
         \<and> get_prop (get_prop rawv ''media'') ''id'' = JStr (dm_id item) \<and> dm_id item \<noteq> []
         \<and> get_prop (get_prop rawv ''media'') ''type'' = JStr (default_media_type_name (dm_type item))
         \<and> get_prop (get_prop rawv ''media'') ''media_url'' = JStr (dm_media_url item)
         \<and> dm_media_url item \<noteq> [])"
proof (cases "media_id (normalizeDefaultMediaResponse rawv) = None \<and>
    media (normalizeDefaultMediaResponse rawv) = None")
  case True
  then show ?thesis by simp
next
  case False
  then obtain mid item where
    m: "string_or_undefined (get_prop rawv ''media_id'') = Some mid" "mid \<noteq> []" and
    it: "normalizeMediaItem (get_prop rawv ''media'') = Some item" and
    r: "normalizeDefaultMediaResponse rawv = \<lparr>media_id = Some mid, media = Some item\<rparr>"
    by (cases "string_or_undefined (get_prop rawv ''media_id'')";
        cases "normalizeMediaItem (get_prop rawv ''media'')")
       (auto simp: normalizeDefaultMediaResponse_def Let_def split: if_splits)
  from normalizeMediaItem_Some[OF it] m r show ?thesis
    by (auto simp: string_or_undefined_Some)
qed

theorem normalizeDefaultMediaResponse_all_or_nothing_witness:
  "media_id (normalizeDefaultMediaResponse
      (JObj [(''media_id'', JStr ''m1''),
             (''media'', JObj [(''id'', JStr ''m1''), (''name'', JStr ''Lobby''),
                               (''type'', JStr ''IMAGE''), (''media_url'', JStr ''https://u/d.png'')])]))
     = Some ''m1''
   \<and> (\<exists>item. media (normalizeDefaultMediaResponse
      (JObj [(''media_id'', JStr ''m1''),
             (''media'', JObj [(''id'', JStr ''m1''), (''name'', JStr ''Lobby''),
                               (''type'', JStr ''IMAGE''), (''media_url'', JStr ''https://u/d.png'')])]))
          = Some item \<and> dm_id item = ''m1'' \<and> dm_type item = IMAGE
          \<and> dm_media_url item = ''https://u/d.png'')"
  using normalizeDefaultMediaResponse_all_or_nothing
    [of "JObj [(''media_id'', JStr ''m1''),
             (''media'', JObj [(''id'', JStr ''m1''), (''name'', JStr ''Lobby''),
                               (''type'', JStr ''IMAGE''), (''media_url'', JStr ''https://u/d.png'')])]"]
  by (simp add: normalizeDefaultMediaResponse_def normalizeMediaItem_def valid_media_type_def Let_def)

subsection \<open>Snapshot parser\<close>




lemmas get_simps = object_proto_get_def objectPrototypeKeys_def js_or_def js_coalesce_def nullish_def

lemma strings_only_empty: "strings_only empty_map"
  by (simp add: strings_only_def empty_map_def)

lemma strings_only_set:
  "strings_only m \<Longrightarrow> typeof_string v \<Longrightarrow> strings_only (map_set m k v)"
  by (cases v) (auto simp: strings_only_def map_set_def update_conv')

lemma strings_only_copy:
  "strings_only m \<Longrightarrow> strings_only (copy_string_entries m kvs)"
  by (induction m kvs rule: copy_string_entries.induct) (auto simp: strings_only_set)

lemma truthy_string_or_absent:
  "string_or_absent v \<Longrightarrow> truthy v \<Longrightarrow> \<exists>s. v = JStr s"
  by (cases v) auto

lemma string_or_absent_or:
  "string_or_absent a \<Longrightarrow> string_or_absent b \<Longrightarrow> string_or_absent (js_or a b)"
  by (simp add: js_or_def)

lemma add_media_entries_ok:
  "list_all typed_media_entry es \<Longrightarrow> strings_only m \<Longrightarrow>
     \<exists>m'. add_media_entries rt m es = Inr m' \<and> strings_only m'"
proof (induction es arbitrary: m)
  case Nil
  then show ?case by simp
next
  case (Cons e es)
  let ?mid = "js_or (get_prop e ''media_id'') (get_prop e ''mediaId'')"
  let ?url = "js_or (get_prop e ''url'') (get_prop e ''media_url'')"
  from Cons.prems have te: "typed_media_entry e" and es: "list_all typed_media_entry es"
    by simp_all
  from te have e: "\<not> nullish e" "string_or_absent ?mid" "string_or_absent ?url"
    by (auto simp: typed_media_entry_def nullish_def string_or_absent_or)
  show ?case
  proof (cases "truthy ?mid \<and> truthy ?url")
    case True
    with e obtain s u where su: "?mid = JStr s" "?url = JStr u"
      by (blast dest: truthy_string_or_absent)
    have "strings_only (map_set m s (JStr u))"
      using Cons.prems(2) by (simp add: strings_only_set)
    from Cons.IH[OF es this] True e su show ?thesis
      by (simp add: Let_def)
  next
    case False
    with Cons.IH[OF es Cons.prems(2)] e show ?thesis
      by (auto simp: Let_def)
  qed
qed

lemma extractMediaUrlMap_ok:
  assumes "case get_prop payload ''media'' of JArr es \<Rightarrow> list_all typed_media_entry es | _ \<Rightarrow> True"
  shows "\<exists>m. extractMediaUrlMap rt payload = Inr m \<and> strings_only m"
proof -
  let ?raw = "js_or (get_prop payload ''media_urls'') (get_prop payload ''mediaUrls'')"
  let ?m = "if truthy ?raw \<and> typeof_object ?raw
            then copy_string_entries empty_map (object_entries ?raw) else empty_map"
  have m: "strings_only ?m"
    by (simp add: strings_only_copy strings_only_empty)
  show ?thesis
  proof (cases "get_prop payload ''media''")
    case (JArr es)
    with assms have "list_all typed_media_entry es" by simp
    from add_media_entries_ok[OF this m, of rt] JArr show ?thesis
      by (simp add: extractMediaUrlMap_def Let_def)
  qed (use m in \<open>simp_all add: extractMediaUrlMap_def Let_def\<close>)
qed

lemma map_get_plain:
  assumes "strings_only m" "k \<notin> set objectPrototypeKeys"
  shows "map_get m k = JUndefined \<or> typeof_string (map_get m k)"
  using assms
  by (auto simp: map_get_def strings_only_def object_proto_get_def split: option.splits)

lemma plain_key_or:
  "plain_key a \<Longrightarrow> plain_key b \<Longrightarrow> plain_key (js_or a b)"
  by (simp add: js_or_def)

lemma truthy_plain_key:
  "plain_key v \<Longrightarrow> truthy v \<Longrightarrow> \<exists>s. v = JStr s \<and> s \<notin> set objectPrototypeKeys"
  by (cases v) auto

lemma resolve_url_ok:
  assumes "strings_only m" "plain_key mid"
    "string_or_absent (get_prop input ''media_url'')" "string_or_absent (get_prop input ''url'')"
  shows "\<exists>url. resolve_url rt input mid m = Inr url \<and> (url = JUndefined \<or> typeof_string url)"
proof -
  let ?direct = "js_or (get_prop input ''media_url'') (get_prop input ''url'')"
  have d: "string_or_absent ?direct" using assms by (simp add: string_or_absent_or)
  show ?thesis
  proof (cases "truthy ?direct")
    case True
    with d obtain s where "?direct = JStr s" by (blast dest: truthy_string_or_absent)
    with True show ?thesis by (simp add: resolve_url_def Let_def)
  next
    case False
    show ?thesis
    proof (cases "truthy mid")
      case True
      with assms(2) obtain s where s: "mid = JStr s" "s \<notin> set objectPrototypeKeys"
        by (blast dest: truthy_plain_key)
      from map_get_plain[OF assms(1) s(2)] s False True show ?thesis
        by (auto simp: resolve_url_def Let_def)
    next
      case f: False
      with False show ?thesis by (simp add: resolve_url_def Let_def)
    qed
  qed
qed

lemma inferTypeFromUrl_ok:
  "url = JUndefined \<or> typeof_string url \<Longrightarrow> \<exists>t. inferTypeFromUrl url = Inr t"
  by (cases url) (auto simp: inferTypeFromUrl_def Let_def)

lemma resolve_type_ok:
  "url = JUndefined \<or> typeof_string url \<Longrightarrow> \<exists>ty. resolve_type input url = Inr ty"
  using inferTypeFromUrl_ok[of url]
  by (auto simp: resolve_type_def Let_def bind_err_def)

lemma number_or_absent_coalesce:
  "number_or_absent a \<Longrightarrow> \<exists>n. b = JNum n \<Longrightarrow> \<exists>n. js_coalesce a b = JNum n"
  by (cases a) (auto simp: js_coalesce_def nullish_def)

lemma number_or_absent_both:
  "number_or_absent a \<Longrightarrow> number_or_absent b \<Longrightarrow> number_or_absent (js_coalesce a b)"
  by (simp add: js_coalesce_def)

lemma number_of_num: "number_of rt (JNum n) = Inr n"
  by (simp add: number_of_def)

lemma normalizeItem_ok:
  assumes "strings_only m" "typed_item input"
  shows "\<exists>r. normalizeItem rt rnd input m = Inr r"
proof (cases "\<not> truthy input \<or> \<not> typeof_object input")
  case True
  then show ?thesis by (auto simp: normalizeItem_def)
next
  case False
  let ?mid = "js_or (get_prop input ''media_id'') (js_or (get_prop input ''mediaId'') (get_prop input ''id''))"
  from assms(2) have mid: "plain_key ?mid"
    by (simp add: typed_item_def plain_key_or)
  from assms(2) have urls: "string_or_absent (get_prop input ''media_url'')"
      "string_or_absent (get_prop input ''url'')"
    by (simp_all add: typed_item_def)
  from resolve_url_ok[OF assms(1) mid urls, of rt] obtain url where
    url: "resolve_url rt input ?mid m = Inr url" "url = JUndefined \<or> typeof_string url" by blast
  from resolve_type_ok[OF url(2), of input] obtain ty where
    ty: "resolve_type input url = Inr ty" by blast
  from assms(2) have "number_or_absent (duration_field input)"
    by (simp add: duration_field_def typed_item_def number_or_absent_both)
  then obtain d where
    d: "js_coalesce (duration_field input) (JNum (Fin 10000)) = JNum d"
    using number_or_absent_coalesce by blast
  from assms(2) have "number_or_absent (js_coalesce (get_prop input ''transition_ms'')
          (get_prop input ''transitionDurationMs''))"
    by (simp add: typed_item_def number_or_absent_both)
  then obtain t where
    t: "js_coalesce (get_prop input ''transition_ms'')
          (js_coalesce (get_prop input ''transitionDurationMs'') (JNum (Fin 0))) = JNum t"
    by (cases "get_prop input ''transition_ms''"; cases "get_prop input ''transitionDurationMs''")
       (auto simp: js_coalesce_def nullish_def)
  from False url ty d t show ?thesis
    by (simp add: normalizeItem_def Let_def bind_err_def number_of_num)
qed

lemma normalize_all_ok:
  "strings_only m \<Longrightarrow> list_all typed_item xs \<Longrightarrow> \<exists>rs. normalize_all rt rnd k m xs = Inr rs"
proof (induction xs arbitrary: k)
  case Nil
  then show ?case by simp
next
  case (Cons x xs)
  from Cons.prems have "typed_item x" "list_all typed_item xs" by simp_all
  with normalizeItem_ok[OF Cons.prems(1), of x rt "rnd k"] Cons.IH[OF Cons.prems(1), of "Suc k"]
  show ?case by (auto simp: bind_err_def)
qed

lemma items_source_ok:
  assumes "case items_value payload of JArr xs \<Rightarrow> list_all typed_item xs | v \<Rightarrow> \<not> truthy v"
  shows "\<exists>xs. items_source payload = Inr xs \<and> list_all typed_item xs"
  using assms by (cases "items_value payload") (auto simp: items_source_def Let_def)


lemma bind_err_Inl:
  "bind_err r f = Inl e \<Longrightarrow> r = Inl e \<or> (\<exists>x. r = Inr x \<and> f x = Inl e)"
  by (cases r) (auto simp: bind_err_def)

lemma inferTypeFromUrl_not_payload: "inferTypeFromUrl url \<noteq> Inl PayloadNotObject"
  by (cases url) (auto simp: inferTypeFromUrl_def Let_def)

lemma resolve_url_not_payload: "resolve_url rt input mid m \<noteq> Inl PayloadNotObject"
  by (auto simp: resolve_url_def Let_def split: option.splits)

lemma resolve_type_not_payload: "resolve_type input url \<noteq> Inl PayloadNotObject"
  by (auto simp: resolve_type_def Let_def inferTypeFromUrl_not_payload dest!: bind_err_Inl)

lemma number_of_not_payload: "number_of rt v \<noteq> Inl PayloadNotObject"
  by (auto simp: number_of_def split: option.splits)

lemma normalizeItem_not_payload: "normalizeItem rt rnd input m \<noteq> Inl PayloadNotObject"
  unfolding normalizeItem_def Let_def
  by (auto simp: resolve_url_not_payload resolve_type_not_payload number_of_not_payload
      dest!: bind_err_Inl)

lemma normalize_all_not_payload: "normalize_all rt rnd k m xs \<noteq> Inl PayloadNotObject"
  by (induction xs arbitrary: k) (auto simp: normalizeItem_not_payload dest!: bind_err_Inl)

lemma add_media_entries_not_payload: "add_media_entries rt m es \<noteq> Inl PayloadNotObject"
  by (induction es arbitrary: m) (auto simp: Let_def split: option.splits)

lemma extractMediaUrlMap_not_payload: "extractMediaUrlMap rt payload \<noteq> Inl PayloadNotObject"
  by (cases "get_prop payload ''media''")
     (simp_all add: extractMediaUrlMap_def Let_def add_media_entries_not_payload)

lemma items_source_not_payload: "items_source payload \<noteq> Inl PayloadNotObject"
  by (cases "items_value payload") (auto simp: items_source_def Let_def)

lemma parse_object_not_payload:
  assumes "truthy (unwrap_payload rawv)" "typeof_object (unwrap_payload rawv)"
  shows "parseSnapshotResponse rt rnd nowIso rawv \<noteq> Inl PayloadNotObject"
  using assms unfolding parseSnapshotResponse_def Let_def
  by (auto simp: extractMediaUrlMap_not_payload items_source_not_payload
      normalize_all_not_payload normalizeItem_not_payload dest!: bind_err_Inl split: if_splits)

lemma parse_well_shaped:
  assumes obj: "truthy (unwrap_payload rawv)" "typeof_object (unwrap_payload rawv)"
    and shape: "well_shaped (unwrap_payload rawv)"
  shows "\<exists>snap. parseSnapshotResponse rt rnd nowIso rawv = Inr snap"
proof -
  let ?p = "unwrap_payload rawv"
  from shape obtain m where m: "extractMediaUrlMap rt ?p = Inr m" "strings_only m"
    using extractMediaUrlMap_ok[of ?p rt] by (auto simp: well_shaped_def)
  from shape obtain xs where xs: "items_source ?p = Inr xs" "list_all typed_item xs"
    using items_source_ok[of ?p] by (auto simp: well_shaped_def)
  from normalize_all_ok[OF m(2) xs(2)] obtain its where
    its: "normalize_all rt rnd 0 m xs = Inr its" by blast
  from shape have em: "typed_item (get_prop ?p ''emergency'')"
    and df: "typed_item (get_prop ?p ''default_media'')"
    by (simp_all add: well_shaped_def)
  obtain e where e: "(if emergencyActive (get_prop ?p ''emergency'')
       then normalizeItem rt (rnd (length xs)) (get_prop ?p ''emergency'') m else Inr None) = Inr e"
    using normalizeItem_ok[OF m(2) em] by (cases "emergencyActive (get_prop ?p ''emergency'')") auto
  obtain d where d: "(if truthy (get_prop ?p ''default_media'')
       then normalizeItem rt (rnd (Suc (length xs))) (get_prop ?p ''default_media'') m else Inr None) = Inr d"
    using normalizeItem_ok[OF m(2) df] by (cases "truthy (get_prop ?p ''default_media'')") auto
  from obj m xs its e d show ?thesis
    by (simp add: parseSnapshotResponse_def Let_def bind_err_def)
qed

text \<open>
  C8, as amended. \<^verbatim>\<open>parseSnapshotResponse\<close> fails with its own error (the payload is
  not an object) exactly when the payload, taken out of its optional envelope, is falsy
  or not of type object. On a payload that is an object and has the declared shape
  (\<open>well_shaped\<close>) it returns a snapshot. Ill-shaped fields inside an object payload can
  still make it throw a \<^verbatim>\<open>TypeError\<close>.
\<close>

theorem parseSnapshotResponse_failures:
  "((parseSnapshotResponse rt rnd nowIso rawv = Inl PayloadNotObject) =
      (\<not> (truthy (unwrap_payload rawv) \<and> typeof_object (unwrap_payload rawv))))
   \<and> (truthy (unwrap_payload rawv) \<and> typeof_object (unwrap_payload rawv) \<and>
       well_shaped (unwrap_payload rawv) \<longrightarrow>
        (\<exists>snap. parseSnapshotResponse rt rnd nowIso rawv = Inr snap))"
proof (intro conjI impI)
  show "(parseSnapshotResponse rt rnd nowIso rawv = Inl PayloadNotObject) =
      (\<not> (truthy (unwrap_payload rawv) \<and> typeof_object (unwrap_payload rawv)))"
  proof (cases "truthy (unwrap_payload rawv) \<and> typeof_object (unwrap_payload rawv)")
    case True
    then show ?thesis using parse_object_not_payload[of rawv rt rnd nowIso] by simp
  next
    case False
    then show ?thesis by (auto simp: parseSnapshotResponse_def Let_def)
  qed
next
  assume "truthy (unwrap_payload rawv) \<and> typeof_object (unwrap_payload rawv) \<and>
       well_shaped (unwrap_payload rawv)"
  then show "\<exists>snap. parseSnapshotResponse rt rnd nowIso rawv = Inr snap"
    using parse_well_shaped by blast
qed

lemma unwrap_example_snapshot: "unwrap_payload example_snapshot = example_snapshot"
  by (simp add: unwrap_payload_def example_snapshot_def get_prop_opt_def get_simps)

lemma well_shaped_example_snapshot: "well_shaped example_snapshot"
  by (simp add: well_shaped_def example_snapshot_def items_value_def typed_item_def
      get_prop_opt_def get_simps)

theorem parseSnapshotResponse_failures_witness:
  "truthy (unwrap_payload example_snapshot) \<and> typeof_object (unwrap_payload example_snapshot) \<and>
   well_shaped (unwrap_payload example_snapshot) \<and>
   parseSnapshotResponse example_runtime example_random ''2026-01-01T00:00:00.000Z'' example_snapshot
     \<noteq> Inl PayloadNotObject \<and>
   (\<exists>snap. parseSnapshotResponse example_runtime example_random ''2026-01-01T00:00:00.000Z''
             example_snapshot = Inr snap)"
proof -
  have obj: "truthy (unwrap_payload example_snapshot)" "typeof_object (unwrap_payload example_snapshot)"
    by (simp_all add: unwrap_example_snapshot) (simp_all add: example_snapshot_def)
  have shape: "well_shaped (unwrap_payload example_snapshot)"
    by (simp add: unwrap_example_snapshot well_shaped_example_snapshot)
  from parseSnapshotResponse_failures
         [of example_runtime example_random "''2026-01-01T00:00:00.000Z''" example_snapshot]
       obj shape
  show ?thesis by simp
qed

text \<open>
  C8, as stated, fails on the payload \<^verbatim>\<open>{"items": 5}\<close>: it is a non-null object, and
  the parser throws on the shape of its \<^verbatim>\<open>items\<close> field.
\<close>

theorem parseSnapshotResponse_items_counterexample:
  "truthy (unwrap_payload example_bad_items) \<and> typeof_object (unwrap_payload example_bad_items) \<and>
   parseSnapshotResponse example_runtime example_random ''2026-01-01T00:00:00.000Z'' example_bad_items
     = Inl (TypeError ''(itemsSource || []).map is not a function'')"
  by (simp add: parseSnapshotResponse_def unwrap_payload_def example_bad_items_def get_prop_opt_def
      get_simps extractMediaUrlMap_def bind_err_def items_source_def items_value_def)














subsection \<open>Cache manager\<close>

lemma find_mem: "find P xs = Some x \<Longrightarrow> x \<in> set xs"
  by (induction xs) (auto split: if_splits)

lemma has_on_disk_True:
  assumes "has_on_disk env now0 mid c0 = (True, c1)"
  shows "\<exists>e. map_of (entries c1) mid = Some e \<and> existsSync c1 (ce_localPath e)"
proof -
  let ?P = "\<lambda>(file, bytes). file = sanitizeFilename env mid \<or>
              take (length (sanitizeFilename env mid @ ''.'')) file = sanitizeFilename env mid @ ''.''"
  from assms obtain match bytes where
    f: "find ?P (disk c0) = Some (match, bytes)"
    by (auto simp: has_on_disk_def Let_def split: option.splits)
  then have mem: "(match, bytes) \<in> set (disk c0)"
    by (rule find_mem)
  from assms f have c1: "c1 = c0\<lparr>entries := AList.update mid
                 \<lparr>ce_mediaId = mid, ce_sha256 = [], ce_size = bytes, ce_lastUsedAt = now0,
                  ce_localPath = path_join (cacheDir c0) match, ce_status = ready\<rparr>
                 (entries c0)\<rparr>"
    by (auto simp: has_on_disk_def Let_def)
  from mem have "existsSync c1 (path_join (cacheDir c0) match)"
    unfolding c1 existsSync_def by force
  then show ?thesis
    unfolding c1 by (simp add: update_conv')
qed

lemma has_True:
  assumes "has env now0 mid c0 = (True, c1)"
  shows "\<exists>e. map_of (entries c1) mid = Some e \<and> existsSync c1 (ce_localPath e)"
proof (cases "map_of (entries c0) mid")
  case None
  with assms show ?thesis by (simp add: has_def has_on_disk_True)
next
  case (Some e)
  show ?thesis
  proof (cases "existsSync c0 (ce_localPath e)")
    case True
    with assms Some have "c1 = c0\<lparr>entries := AList.update mid (e\<lparr>ce_lastUsedAt := now0\<rparr>) (entries c0)\<rparr>"
      by (auto simp: has_def)
    with True show ?thesis
      by (simp add: update_conv' existsSync_def)
  next
    case False
    with assms Some show ?thesis by (simp add: has_def has_on_disk_True)
  qed
qed

lemma has_present:
  assumes "map_of (entries c) mid = Some e" "existsSync c (ce_localPath e)"
  shows "has env now mid c = (True, c\<lparr>entries := AList.update mid (e\<lparr>ce_lastUsedAt := now\<rparr>) (entries c)\<rparr>)"
  using assms by (simp add: has_def)

text \<open>
  C9. When \<^verbatim>\<open>has(mediaId)\<close> has answered true, a following \<^verbatim>\<open>add\<close> of that media
  succeeds without any download and leaves the cache manager as it was, but for the
  \<^verbatim>\<open>lastUsedAt\<close> of that one entry, which becomes the time of the call.
\<close>

theorem add_present_only_touches:
  assumes "has env now0 mid c0 = (True, c1)"
  shows "\<exists>e. map_of (entries c1) mid = Some e \<and>
             add env now mid url sha c1 =
               (Inr (), c1\<lparr>entries := AList.update mid (e\<lparr>ce_lastUsedAt := now\<rparr>) (entries c1)\<rparr>) \<and>
             downloads (snd (add env now mid url sha c1)) = downloads c1 \<and>
             map_of (entries (snd (add env now mid url sha c1))) =
               (map_of (entries c1))(mid \<mapsto> e\<lparr>ce_lastUsedAt := now\<rparr>)"
proof -
  from has_True[OF assms] obtain e where
    e: "map_of (entries c1) mid = Some e" "existsSync c1 (ce_localPath e)" by blast
  from has_present[OF e] have
    "add env now mid url sha c1 =
       (Inr (), c1\<lparr>entries := AList.update mid (e\<lparr>ce_lastUsedAt := now\<rparr>) (entries c1)\<rparr>)"
    by (simp add: add_def)
  with e(1) show ?thesis by (simp add: update_conv')
qed


theorem add_present_only_touches_witness:
  "has example_cache_env 10 ''m1'' (example_cache 0) = (True, example_cache 10) \<and>
   add example_cache_env 20 ''m1'' ''https://u/1.png'' None (example_cache 10) =
     (Inr (), example_cache 20) \<and>
   downloads (example_cache 20) = []"
proof -
  have h: "has example_cache_env 10 ''m1'' (example_cache 0) = (True, example_cache 10)"
    by (simp add: has_def example_cache_def example_entry_def existsSync_def path_join_def)
  from add_present_only_touches[OF h, of 20 "''https://u/1.png''" None]
  have "add example_cache_env 20 ''m1'' ''https://u/1.png'' None (example_cache 10) =
     (Inr (), example_cache 20)"
    by (simp add: example_cache_def example_entry_def)
  with h show ?thesis by (simp add: example_cache_def)
qed

lemma has_False:
  assumes "has env now mid c = (False, c1)"
  shows "c1 = c\<lparr>entries := AList.delete mid (entries c)\<rparr>"
  using assms
  by (auto simp: has_def has_on_disk_def Let_def split: option.splits if_splits)

lemma evictIfNeeded_oversize:
  assumes "int n > maxBytes c" "maxBytes c > 0"
  shows "evictIfNeeded c n =
           c\<lparr>warnings := ''Item exceeds cache capacity, skipping eviction'' # warnings c\<rparr>"
  using assms by (simp add: evictIfNeeded_def)

text \<open>
  C2, as amended. When the body downloaded for a media that the cache does not hold is
  larger than \<^verbatim>\<open>maxBytes\<close> (and \<^verbatim>\<open>maxBytes\<close> is positive), \<^verbatim>\<open>add\<close> evicts nothing and logs
  the warning, and then goes on: it writes the file and registers an entry of the full
  size for the media.
\<close>

theorem add_oversize_creates_entry:
  assumes absent: "has env now mid c = (False, c1)"
    and idle: "mid \<notin> set (inFlight c)"
    and body: "fetch env url = Inr data"
    and intact: "missing sha \<or> sha = Some (calculateBufferHash env data)"
    and big: "int (length data) > maxBytes c"
    and pos: "maxBytes c > 0"
  shows "\<exists>c2 e. add env now mid url sha c = (Inr (), c2) \<and>
           map_of (entries c2) mid = Some e \<and> ce_size e = length data \<and>
           (\<forall>k. k \<noteq> mid \<longrightarrow> map_of (entries c2) k = map_of (entries c) k) \<and>
           warnings c2 = ''Item exceeds cache capacity, skipping eviction'' # warnings c \<and>
           map_of (disk c2) (file_name env mid url) = Some (length data) \<and>
           downloads c2 = url # downloads c"
proof -
  note c1 = has_False[OF absent]
  let ?c = "c1\<lparr>inFlight := mid # inFlight c1\<rparr>"
  have dl: "download env ?c url = (Inr data, ?c\<lparr>downloads := url # downloads ?c\<rparr>)"
    using body by (simp add: download_def Let_def)
  let ?d = "?c\<lparr>downloads := url # downloads ?c\<rparr>"
  have ev: "evictIfNeeded ?d (length data) =
              ?d\<lparr>warnings := ''Item exceeds cache capacity, skipping eviction'' # warnings ?d\<rparr>"
    using big pos by (intro evictIfNeeded_oversize) (simp_all add: c1)
  have chk: "\<not> (\<not> missing sha \<and> sha \<noteq> Some (calculateBufferHash env data))"
    using intact by auto
  obtain r c2 where r: "addInternal env now mid url sha ?c = (r, c2)"
    by (cases "addInternal env now mid url sha ?c")
  from r dl ev chk have rI: "r = Inr ()"
    and e2: "map_of (entries c2) mid \<noteq> None" "ce_size (the (map_of (entries c2) mid)) = length data"
    and o2: "\<forall>k. k \<noteq> mid \<longrightarrow> map_of (entries c2) k = map_of (entries c) k"
    and w2: "warnings c2 = ''Item exceeds cache capacity, skipping eviction'' # warnings c"
    and d2: "map_of (disk c2) (file_name env mid url) = Some (length data)"
    and l2: "downloads c2 = url # downloads c"
    unfolding addInternal_def Let_def
    by (auto simp: atomicWrite_def update_conv' c1 delete_conv')
  from absent idle r rI have "add env now mid url sha c = (Inr (), c2\<lparr>inFlight := removeAll mid (inFlight c2)\<rparr>)"
    by (simp add: add_def c1)
  with e2 o2 w2 d2 l2 show ?thesis by auto
qed


lemma length_example_big_body: "length example_big_body = 157286400"
  by (simp add: example_big_body_def)

lemma has_example_empty:
  "has example_big_env 5 ''m1'' example_empty_cache = (False, example_empty_cache)"
  by (simp add: has_def has_on_disk_def example_empty_cache_def)

theorem add_oversize_creates_entry_witness:
  "has example_big_env 5 ''m1'' example_empty_cache = (False, example_empty_cache) \<and>
   ''m1'' \<notin> set (inFlight example_empty_cache) \<and>
   fetch example_big_env ''https://u/big.mp4'' = Inr example_big_body \<and>
   int (length example_big_body) > maxBytes example_empty_cache \<and>
   maxBytes example_empty_cache > 0 \<and>
   (\<exists>c2 e. add example_big_env 5 ''m1'' ''https://u/big.mp4'' None example_empty_cache = (Inr (), c2) \<and>
      map_of (entries c2) ''m1'' = Some e \<and> ce_size e = 157286400 \<and>
      warnings c2 = [''Item exceeds cache capacity, skipping eviction''])"
proof -
  have a: "has example_big_env 5 ''m1'' example_empty_cache = (False, example_empty_cache)"
    by (rule has_example_empty)
  have b: "''m1'' \<notin> set (inFlight example_empty_cache)"
    by (simp add: example_empty_cache_def)
  have c: "fetch example_big_env ''https://u/big.mp4'' = Inr example_big_body"
    by (simp add: example_big_env_def)
  have d: "missing None \<or> None = Some (calculateBufferHash example_big_env example_big_body)"
    by simp
  have e: "int (length example_big_body) > maxBytes example_empty_cache"
    by (simp add: length_example_big_body example_empty_cache_def)
  have f: "maxBytes example_empty_cache > 0"
    by (simp add: example_empty_cache_def)
  from add_oversize_creates_entry[OF a b c d e f] a b c e f show ?thesis
    by (auto simp: length_example_big_body example_empty_cache_def)
qed

text \<open>
  C2, as stated, fails on its own boundary case: after \<^verbatim>\<open>add\<close> of a body of 150 MiB to an
  empty cache of 100 MiB the entry map holds an entry for the media.
\<close>

theorem add_oversize_counterexample:
  "int (length example_big_body) > maxBytes example_empty_cache \<and>
   fst (add example_big_env 5 ''m1'' ''https://u/big.mp4'' None example_empty_cache) = Inr () \<and>
   map_of (entries (snd (add example_big_env 5 ''m1'' ''https://u/big.mp4'' None example_empty_cache))) ''m1''
     = Some \<lparr>ce_mediaId = ''m1'', ce_sha256 = ''0a4d55a8'', ce_size = 157286400,
             ce_lastUsedAt = 5, ce_localPath = ''/var/cache/media/m1.mp4'', ce_status = ready\<rparr>"
proof -
  have idle: "''m1'' \<notin> set (inFlight example_empty_cache)"
    by (simp add: example_empty_cache_def)
  have inner: "addInternal example_big_env 5 ''m1'' ''https://u/big.mp4'' None
          (example_empty_cache\<lparr>inFlight := ''m1'' # inFlight example_empty_cache\<rparr>) =
        (Inr (),
         \<lparr>cacheDir = ''/var/cache/media'', maxBytes = 104857600,
          entries = [(''m1'', \<lparr>ce_mediaId = ''m1'', ce_sha256 = ''0a4d55a8'', ce_size = 157286400,
             ce_lastUsedAt = 5, ce_localPath = ''/var/cache/media/m1.mp4'', ce_status = ready\<rparr>)],
          nowPlaying = [], inFlight = [''m1''],
          disk = [(''m1.mp4'', 157286400)],
          warnings = [''Item exceeds cache capacity, skipping eviction''],
          downloads = [''https://u/big.mp4'']\<rparr>)"
    by (simp add: addInternal_def download_def evictIfNeeded_def
      atomicWrite_def getFilePath_def file_name_def getFileExtension_def path_join_def
      length_example_big_body example_big_env_def example_empty_cache_def Let_def)
  have big: "int (length example_big_body) > maxBytes example_empty_cache"
    by (simp add: length_example_big_body example_empty_cache_def)
  from idle inner big show ?thesis
    by (simp add: add_def has_example_empty)
qed

text \<open>
  Asking the cache for a media changes neither the files nor the directory, and changes
  the entry of that media only: it is touched, rebuilt from the file found on disk, or
  dropped when no file is found. What the cache holds stays as it was.
\<close>

lemma has_on_disk_frame:
  "disk (snd (has_on_disk env now k c)) = disk c \<and> cacheDir (snd (has_on_disk env now k c)) = cacheDir c"
  by (auto simp: has_on_disk_def Let_def split: option.splits)

lemma has_frame:
  "disk (snd (has env now k c)) = disk c \<and> cacheDir (snd (has env now k c)) = cacheDir c"
  by (auto simp: has_def has_on_disk_frame split: option.splits)

lemma get_frame:
  "disk (snd (get env now k c)) = disk c \<and> cacheDir (snd (get env now k c)) = cacheDir c"
  using has_frame[of env now k c]
  by (cases "has env now k c") (auto simp: get_def split: bool.splits)

lemma has_on_disk_other:
  "key \<noteq> k \<Longrightarrow> map_of (entries (snd (has_on_disk env now k c))) key = map_of (entries c) key"
  by (auto simp: has_on_disk_def Let_def update_conv' delete_conv' split: option.splits)

lemma has_other:
  "key \<noteq> k \<Longrightarrow> map_of (entries (snd (has env now k c))) key = map_of (entries c) key"
  by (auto simp: has_def has_on_disk_other update_conv' split: option.splits)

lemma existsSync_frame:
  "disk c' = disk c \<Longrightarrow> cacheDir c' = cacheDir c \<Longrightarrow> existsSync c' p = existsSync c p"
  by (simp add: existsSync_def)

lemma find_on_disk:
  "find P (disk c) = Some (match, bytes) \<Longrightarrow> existsSync c (path_join (cacheDir c) match)"
  by (drule find_mem) (force simp: existsSync_def)

lemma get_path: "fst (get env now key c) = held_path env c key"
proof (cases "map_of (entries c) key")
  case None
  then show ?thesis
    by (auto simp: get_def has_def has_on_disk_def held_path_def Let_def update_conv'
        split: option.splits)
next
  case (Some entry)
  then show ?thesis
    by (auto simp: get_def has_def has_on_disk_def held_path_def Let_def update_conv'
        split: option.splits)
qed

lemma held_path_unreadable:
  assumes "\<And>entry. map_of (entries c) k = Some entry \<Longrightarrow> \<not> existsSync c (ce_localPath entry)"
  shows "held_path env c k =
     map_option (\<lambda>(match, bytes). path_join (cacheDir c) match)
        (find (\<lambda>(file, bytes). file = sanitizeFilename env k \<or>
                 take (length (sanitizeFilename env k @ ''.'')) file = sanitizeFilename env k @ ''.'')
           (disk c))"
proof (cases "map_of (entries c) k")
  case None
  then show ?thesis by (simp add: held_path_def Let_def)
next
  case (Some entry)
  with assms[OF Some] show ?thesis by (simp add: held_path_def Let_def)
qed

lemma held_path_has_on_disk:
  assumes "\<And>entry. map_of (entries c) k = Some entry \<Longrightarrow> \<not> existsSync c (ce_localPath entry)"
  shows "held_path env (snd (has_on_disk env now k c)) k = held_path env c k"
proof (cases "find (\<lambda>(file, bytes). file = sanitizeFilename env k \<or>
                   take (length (sanitizeFilename env k @ ''.'')) file = sanitizeFilename env k @ ''.'') (disk c)")
  case None
  then have c': "snd (has_on_disk env now k c) = c\<lparr>entries := AList.delete k (entries c)\<rparr>"
    by (simp add: has_on_disk_def Let_def)
  have "held_path env (c\<lparr>entries := AList.delete k (entries c)\<rparr>) k = None"
    using None by (simp add: held_path_def Let_def delete_conv')
  moreover have "held_path env c k = None"
    using held_path_unreadable[where env = env, OF assms] None by simp
  ultimately show ?thesis using c' by simp
next
  case (Some mb)
  obtain match bytes where mb: "mb = (match, bytes)" by (cases mb)
  from Some mb have ex: "existsSync c (path_join (cacheDir c) match)"
    by (auto dest: find_on_disk)
  let ?e = "\<lparr>ce_mediaId = k, ce_sha256 = [], ce_size = bytes, ce_lastUsedAt = now,
            ce_localPath = path_join (cacheDir c) match, ce_status = ready\<rparr>"
  from Some mb have c': "snd (has_on_disk env now k c) =
      c\<lparr>entries := AList.update k ?e (entries c)\<rparr>"
    by (simp add: has_on_disk_def Let_def)
  from ex have ex': "existsSync (c\<lparr>entries := AList.update k ?e (entries c)\<rparr>)
      (path_join (cacheDir c) match)"
    by (simp add: existsSync_def)
  have after: "held_path env (c\<lparr>entries := AList.update k ?e (entries c)\<rparr>) k =
      Some (path_join (cacheDir c) match)"
    using ex' by (simp add: held_path_def Let_def update_conv')
  have before: "held_path env c k = Some (path_join (cacheDir c) match)"
    using held_path_unreadable[where env = env, OF assms] Some mb by simp
  from after before c' show ?thesis by simp
qed

lemma held_path_has_same: "held_path env (snd (has env now k c)) k = held_path env c k"
proof (cases "map_of (entries c) k")
  case None
  then have "has env now k c = has_on_disk env now k c" by (simp add: has_def)
  with None held_path_has_on_disk[where c = c and k = k and env = env and now = now]
  show ?thesis by simp
next
  case (Some entry)
  show ?thesis
  proof (cases "existsSync c (ce_localPath entry)")
    case True
    with Some have h: "snd (has env now k c) =
        c\<lparr>entries := AList.update k (entry\<lparr>ce_lastUsedAt := now\<rparr>) (entries c)\<rparr>"
      by (simp add: has_def)
    from True have "existsSync (c\<lparr>entries := AList.update k (entry\<lparr>ce_lastUsedAt := now\<rparr>) (entries c)\<rparr>)
          (ce_localPath entry)"
      by (simp add: existsSync_def)
    with h Some True show ?thesis
      by (simp add: held_path_def Let_def update_conv')
  next
    case False
    with Some have "has env now k c = has_on_disk env now k c" by (simp add: has_def)
    with Some False held_path_has_on_disk[where c = c and k = k and env = env and now = now]
    show ?thesis by simp
  qed
qed

lemma held_path_has: "held_path env (snd (has env now k c)) key = held_path env c key"
proof (cases "key = k")
  case True
  then show ?thesis by (simp add: held_path_has_same)
next
  case False
  let ?c' = "snd (has env now k c)"
  have fr: "disk ?c' = disk c" "cacheDir ?c' = cacheDir c" by (simp_all add: has_frame)
  from False have "map_of (entries ?c') key = map_of (entries c) key" by (rule has_other)
  with fr show ?thesis
    by (simp add: held_path_def Let_def existsSync_frame[OF fr] split: option.splits)
qed

lemma held_path_get: "held_path env (snd (get env now k c)) key = held_path env c key"
  using held_path_has[of env now k c key]
  by (cases "has env now k c") (auto simp: get_def split: bool.splits)

subsection \<open>Snapshot manager\<close>

text \<open>
  \<^verbatim>\<open>attachLocalMedia\<close> asks the cache item by item and so works on a cache that changes
  under it; its result is nevertheless the filter over the cache as it was at the start.
\<close>

lemma hydrate_cong:
  "(\<And>key. held_path env c' key = held_path env c key) \<Longrightarrow>
     hydrate env toFileUrl c' = hydrate env toFileUrl c"
  by (rule ext) (simp add: hydrate_def split: option.splits)

lemma held_items_cong:
  "(\<And>key. held_path env c' key = held_path env c key) \<Longrightarrow>
     held_items env toFileUrl c' its = held_items env toFileUrl c its"
  using hydrate_cong[where env = env and c' = c' and c = c and toFileUrl = toFileUrl]
  by (simp add: held_items_def)

lemma attachLocalMedia_held:
  "fst (attachLocalMedia env toFileUrl now c its) = held_items env toFileUrl c its"
proof (induction its arbitrary: c)
  case Nil
  then show ?case by (simp add: held_items_def map_filter_simps)
next
  case (Cons item rest)
  show ?case
  proof (cases "str_or (ti_mediaId item) (ti_objectKey item)")
    case None
    with Cons.IH[of c] show ?thesis
      by (simp add: held_items_def map_filter_simps hydrate_def)
  next
    case (Some key)
    show ?thesis
    proof (cases "key = []")
      case True
      with Some Cons.IH[of c] show ?thesis
        by (simp add: held_items_def map_filter_simps hydrate_def)
    next
      case False
      obtain lp c1 where g: "get env now key c = (lp, c1)" by (cases "get env now key c")
      with get_path[of env now key c] have lp: "lp = held_path env c key" by simp
      from g held_path_get[of env now key c] have "\<And>k. held_path env c1 k = held_path env c k"
        by simp
      then have same: "held_items env toFileUrl c1 rest = held_items env toFileUrl c rest"
        by (rule held_items_cong)
      from Cons.IH[of c1] same have ih: "fst (attachLocalMedia env toFileUrl now c1 rest) =
          held_items env toFileUrl c rest" by simp
      obtain hs c2 where r: "attachLocalMedia env toFileUrl now c1 rest = (hs, c2)"
        by (cases "attachLocalMedia env toFileUrl now c1 rest")
      with ih have hs: "hs = held_items env toFileUrl c rest" by simp
      show ?thesis
      proof (cases lp)
        case None
        with Some False g lp r hs show ?thesis
          by (simp add: held_items_def map_filter_simps hydrate_def)
      next
        case (Some p)
        note p = this
        show ?thesis
        proof (cases "p = []")
          case True
          with p \<open>str_or (ti_mediaId item) (ti_objectKey item) = Some key\<close> False g lp r hs
          show ?thesis
            by (simp add: held_items_def map_filter_simps hydrate_def)
        next
          case nonempty: False
          with p \<open>str_or (ti_mediaId item) (ti_objectKey item) = Some key\<close> False g lp r hs
          show ?thesis
            by (simp add: held_items_def map_filter_simps hydrate_def)
        qed
      qed
    qed
  qed
qed

lemma buildPlaylist_held:
  "fst (buildPlaylist env toFileUrl now snapshot fallbackMode c) =
     \<lparr>pl_mode = fst (select_items snapshot fallbackMode),
      pl_items = held_items env toFileUrl c (snd (select_items snapshot fallbackMode)),
      pl_scheduleId = scheduleId snapshot, pl_snapshotId = snapshotId snapshot,
      pl_lastSnapshotAt = Some (fetchedAt snapshot)\<rparr>"
proof -
  obtain mode its where s: "select_items snapshot fallbackMode = (mode, its)"
    by (cases "select_items snapshot fallbackMode")
  obtain hydrated c1 where a: "attachLocalMedia env toFileUrl now c its = (hydrated, c1)"
    by (cases "attachLocalMedia env toFileUrl now c its")
  from attachLocalMedia_held[of env toFileUrl now c its] a
  have "hydrated = held_items env toFileUrl c its" by simp
  with s a show ?thesis by (simp add: buildPlaylist_def)
qed


text \<open>
  C1, as amended. The mode of the playlist \<^verbatim>\<open>buildPlaylist\<close> returns follows the strict
  precedence: emergency when the snapshot has an emergency item, else normal when its
  items are not empty, else default when it has a default item, else the fallback mode
  it was given. The items of the playlist are exactly the candidates of that mode (the
  one emergency item, the snapshot's items, the one default item, none) that the cache
  holds, in their order, each with the path the cache holds it under and the file URL
  of that path attached: a candidate whose media is not cached is left out, so the list
  can be shorter than the candidates, and empty.
\<close>

theorem buildPlaylist_mode_precedence:
  assumes "buildPlaylist env toFileUrl now snapshot fallbackMode c = (playlist, c')"
  shows "(case emergencyItem snapshot of
            Some e \<Rightarrow>
              pl_mode playlist = mode_emergency \<and>
              pl_items playlist = held_items env toFileUrl c [e]
          | None \<Rightarrow>
              if items snapshot \<noteq> [] then
                pl_mode playlist = mode_normal \<and>
                pl_items playlist = held_items env toFileUrl c (items snapshot)
              else
                (case defaultItem snapshot of
                   Some d \<Rightarrow>
                     pl_mode playlist = mode_default \<and>
                     pl_items playlist = held_items env toFileUrl c [d]
                 | None \<Rightarrow> pl_mode playlist = fallbackMode \<and> pl_items playlist = []))"
proof -
  from buildPlaylist_held[of env toFileUrl now snapshot fallbackMode c] assms
  have p: "pl_mode playlist = fst (select_items snapshot fallbackMode)"
      "pl_items playlist = held_items env toFileUrl c (snd (select_items snapshot fallbackMode))"
    by simp_all
  show ?thesis
  proof (cases "emergencyItem snapshot")
    case (Some e)
    with p show ?thesis by (simp add: select_items_def)
  next
    case None
    show ?thesis
    proof (cases "items snapshot \<noteq> []")
      case True
      with p None show ?thesis by (simp add: select_items_def)
    next
      case False
      with p None show ?thesis
        by (cases "defaultItem snapshot")
           (simp_all add: select_items_def held_items_def map_filter_simps)
    qed
  qed
qed

text \<open>
  An emergency item the cache holds, and a schedule of two items of which the cache
  holds the second only: the playlist of mode normal has that one item.
\<close>

lemma build_example_cached:
  "buildPlaylist example_cache_env example_file_url 7 example_emergency_snapshot mode_offline
      example_emergency_cache =
     (\<lparr>pl_mode = mode_emergency,
       pl_items = [example_emergency_item\<lparr>ti_localPath := Some ''/var/cache/media/em1.mp4'',
                      ti_localUrl := Some ''file:///var/cache/media/em1.mp4''\<rparr>],
       pl_scheduleId = Some ''s1'', pl_snapshotId = None,
       pl_lastSnapshotAt = Some ''2026-01-01T00:00:00.000Z''\<rparr>,
      example_emergency_cache\<lparr>entries :=
        [(''em1'', \<lparr>ce_mediaId = ''em1'', ce_sha256 = ''0a4d55a8'', ce_size = 4,
                            ce_lastUsedAt = 7, ce_localPath = ''/var/cache/media/em1.mp4'',
                            ce_status = ready\<rparr>)]\<rparr>)"
  by (simp add: buildPlaylist_def select_items_def example_emergency_snapshot_def
      example_emergency_item_def str_or_def get_def has_def existsSync_def path_join_def
      example_emergency_cache_def example_file_url_def)

lemma build_example_mixed:
  "buildPlaylist example_cache_env example_file_url 7 example_mixed_snapshot mode_offline
      (example_cache 0) =
     (\<lparr>pl_mode = mode_normal,
       pl_items = [example_scheduled_item\<lparr>ti_localPath := Some ''/var/cache/media/m1.png'',
                      ti_localUrl := Some ''file:///var/cache/media/m1.png''\<rparr>],
       pl_scheduleId = Some ''s1'', pl_snapshotId = None,
       pl_lastSnapshotAt = Some ''2026-01-01T00:00:00.000Z''\<rparr>,
      example_cache 7)"
  by (simp add: buildPlaylist_def select_items_def example_mixed_snapshot_def
      example_uncached_item_def example_scheduled_item_def str_or_def get_def has_def
      has_on_disk_def existsSync_def path_join_def example_cache_def example_entry_def
      example_cache_env_def example_file_url_def)

theorem buildPlaylist_mode_precedence_witness:
  "emergencyItem example_emergency_snapshot = Some example_emergency_item \<and>
   pl_mode (fst (buildPlaylist example_cache_env example_file_url 7 example_emergency_snapshot
                   mode_offline example_emergency_cache)) = mode_emergency \<and>
   pl_items (fst (buildPlaylist example_cache_env example_file_url 7 example_emergency_snapshot
                   mode_offline example_emergency_cache)) =
     held_items example_cache_env example_file_url example_emergency_cache [example_emergency_item] \<and>
   held_items example_cache_env example_file_url example_emergency_cache [example_emergency_item] =
     [example_emergency_item\<lparr>ti_localPath := Some ''/var/cache/media/em1.mp4'',
                      ti_localUrl := Some ''file:///var/cache/media/em1.mp4''\<rparr>] \<and>
   emergencyItem example_mixed_snapshot = None \<and>
   items example_mixed_snapshot = [example_uncached_item, example_scheduled_item] \<and>
   pl_mode (fst (buildPlaylist example_cache_env example_file_url 7 example_mixed_snapshot
                   mode_offline (example_cache 0))) = mode_normal \<and>
   pl_items (fst (buildPlaylist example_cache_env example_file_url 7 example_mixed_snapshot
                   mode_offline (example_cache 0))) =
     held_items example_cache_env example_file_url (example_cache 0)
       [example_uncached_item, example_scheduled_item] \<and>
   held_items example_cache_env example_file_url (example_cache 0)
       [example_uncached_item, example_scheduled_item] =
     [example_scheduled_item\<lparr>ti_localPath := Some ''/var/cache/media/m1.png'',
                      ti_localUrl := Some ''file:///var/cache/media/m1.png''\<rparr>]"
proof -
  have e: "emergencyItem example_emergency_snapshot = Some example_emergency_item"
    by (simp add: example_emergency_snapshot_def)
  have m: "emergencyItem example_mixed_snapshot = None"
      "items example_mixed_snapshot = [example_uncached_item, example_scheduled_item]"
    by (simp_all add: example_mixed_snapshot_def)
  have he: "held_items example_cache_env example_file_url example_emergency_cache [example_emergency_item] =
     [example_emergency_item\<lparr>ti_localPath := Some ''/var/cache/media/em1.mp4'',
                      ti_localUrl := Some ''file:///var/cache/media/em1.mp4''\<rparr>]"
    by (simp add: held_items_def map_filter_simps hydrate_def held_path_def str_or_def
        example_emergency_item_def example_emergency_cache_def existsSync_def path_join_def
        example_file_url_def)
  have hm: "held_items example_cache_env example_file_url (example_cache 0)
       [example_uncached_item, example_scheduled_item] =
     [example_scheduled_item\<lparr>ti_localPath := Some ''/var/cache/media/m1.png'',
                      ti_localUrl := Some ''file:///var/cache/media/m1.png''\<rparr>]"
    by (simp add: held_items_def map_filter_simps hydrate_def held_path_def str_or_def
        example_uncached_item_def example_scheduled_item_def example_cache_def example_entry_def
        example_cache_env_def existsSync_def path_join_def example_file_url_def)
  from buildPlaylist_mode_precedence[OF build_example_cached]
       buildPlaylist_mode_precedence[OF build_example_mixed] e m he hm
  show ?thesis
    by (simp add: build_example_cached build_example_mixed)
qed

text \<open>
  C1, as stated, fails where the emergency media is not in the cache: the mode is
  emergency and the items are not the single emergency item but none.
\<close>

theorem buildPlaylist_uncached_counterexample:
  "emergencyItem example_emergency_snapshot = Some example_emergency_item \<and>
   pl_mode (fst (buildPlaylist example_cache_env example_file_url 7 example_emergency_snapshot
                   mode_offline example_empty_cache)) = mode_emergency \<and>
   pl_items (fst (buildPlaylist example_cache_env example_file_url 7 example_emergency_snapshot
                   mode_offline example_empty_cache)) = []"
  by (simp add: buildPlaylist_def select_items_def example_emergency_snapshot_def
      example_emergency_item_def str_or_def get_def has_def has_on_disk_def existsSync_def
      example_empty_cache_def example_cache_env_def)

text \<open>
  The fallback mode that reaches \<^verbatim>\<open>buildPlaylist\<close> from \<^verbatim>\<open>refreshSnapshot\<close> is \<^verbatim>\<open>'normal'\<close>:
  a freshly fetched snapshot with no items, no emergency item and no default item gives
  an empty playlist of mode normal.
\<close>

lemma refreshSnapshot_empty_snapshot:
  assumes "\<not> missing (deviceId w)"
    and "attempt w (requests m) = Parsed snap"
    and "items snap = []" "emergencyItem snap = None" "defaultItem snap = None"
  shows "map_option pl_mode (fst (refreshSnapshot w retryOnExpired m)) = Some mode_normal \<and>
         map_option pl_items (fst (refreshSnapshot w retryOnExpired m)) = Some []"
  using assms
  by (cases retryOnExpired)
     (simp_all add: refresh_pass_def Let_def cacheSnapshotMedia_def buildPlaylist_def
       select_items_def)

lemma cache_items_error:
  "cache_items env now c its = (Inl e, c') \<Longrightarrow> reason e = Some ''URL_EXPIRED''"
proof (induction its arbitrary: c)
  case Nil
  then show ?case by simp
next
  case (Cons item rest)
  then show ?case
    by (auto split: option.splits if_splits prod.splits sum.splits)
qed

lemma cacheSnapshotMedia_error:
  "cacheSnapshotMedia env now snapshot c = (Inl e, c') \<Longrightarrow> reason e = Some ''URL_EXPIRED''"
  unfolding cacheSnapshotMedia_def by (rule cache_items_error)

lemma requests_applyOfflineFallback:
  "requests (snd (applyOfflineFallback w k why m)) = requests m"
  by (auto simp: applyOfflineFallback_def emit_playlist_def Let_def
      split: option.splits prod.splits)

lemma requests_final_pass:
  assumes "\<not> missing (deviceId w)"
  shows "requests (snd (refreshSnapshot w False m)) = Suc (requests m)"
  using assms
  by (auto simp: refresh_pass_def Let_def requests_applyOfflineFallback emit_playlist_def
      split: attempt_outcome.splits prod.splits sum.splits)

text \<open>
  What \<^verbatim>\<open>applyOfflineFallback\<close> leaves behind: the reason as the last error, and a
  playlist returned, kept as the current one and emitted. With a snapshot held from an
  earlier cycle the playlist is that snapshot's, built against the cache as it is now,
  with the mode the snapshot's content gives (the mode is offline only if the snapshot
  has no item at all); with none it is the empty playlist. The snapshot held is not
  changed.
\<close>

lemma applyOfflineFallback_outcome:
  assumes "applyOfflineFallback w k why m = (r, m')"
  shows "\<exists>playlist. r = Some playlist \<and> currentPlaylist m' = Some playlist
           \<and> emitted m' = playlist # emitted m \<and> lastError m' = Some why
           \<and> currentSnapshot m' = currentSnapshot m \<and> requests m' = requests m
           \<and> (case currentSnapshot m of
                 None \<Rightarrow>
                   playlist = \<lparr>pl_mode = mode_empty, pl_items = [], pl_scheduleId = None,
                                pl_snapshotId = None,
                                pl_lastSnapshotAt =
                                  (case currentPlaylist m of
                                     Some p \<Rightarrow> pl_lastSnapshotAt p
                                   | None \<Rightarrow> None)\<rparr>
                   \<and> cache m' = cache m
               | Some cached \<Rightarrow>
                   playlist = \<lparr>pl_mode = fst (select_items cached mode_offline),
                                pl_items = held_items (env_at w k) (pathToFileURL w) (cache m)
                                             (snd (select_items cached mode_offline)),
                                pl_scheduleId = scheduleId cached,
                                pl_snapshotId = snapshotId cached,
                                pl_lastSnapshotAt = Some (fetchedAt cached)\<rparr>)"
proof (cases "currentSnapshot m")
  case None
  with assms show ?thesis
    by (auto simp: applyOfflineFallback_def emit_playlist_def Let_def)
next
  case (Some cached)
  obtain playlist c1 where
    b: "buildPlaylist (env_at w k) (pathToFileURL w) (clock w k) cached mode_offline (cache m) = (playlist, c1)"
    by (cases "buildPlaylist (env_at w k) (pathToFileURL w) (clock w k) cached mode_offline (cache m)")
  from buildPlaylist_held[of "env_at w k" "pathToFileURL w" "clock w k" cached mode_offline "cache m"] b
  have p: "playlist = \<lparr>pl_mode = fst (select_items cached mode_offline),
                                pl_items = held_items (env_at w k) (pathToFileURL w) (cache m)
                                             (snd (select_items cached mode_offline)),
                                pl_scheduleId = scheduleId cached,
                                pl_snapshotId = snapshotId cached,
                                pl_lastSnapshotAt = Some (fetchedAt cached)\<rparr>" by simp
  from assms Some b have "r = Some playlist"
      "m' = emit_playlist playlist (m\<lparr>lastError := Some why, cache := c1\<rparr>)"
    by (auto simp: applyOfflineFallback_def Let_def)
  with Some p show ?thesis
    by (simp add: emit_playlist_def)
qed


text \<open>
  C4. In a refresh cycle of a paired device in which caching the media of the fetched
  snapshot raises a \<^verbatim>\<open>URL_EXPIRED\<close> error, \<^verbatim>\<open>refreshSnapshot\<close> continues as one recursive
  refresh with the retry flag cleared, so the cycle sends exactly two snapshot requests,
  the original and one refetch. When caching the media of the refetched snapshot raises
  \<^verbatim>\<open>URL_EXPIRED\<close> again, no third request is sent and the cycle ends on the fallback
  path: the message of the second error becomes the last error, the snapshot held from
  before the cycle stays the current one, and the playlist returned, made current and
  emitted is the playlist of that snapshot built with the fallback mode offline, or the
  empty playlist when no snapshot is held.
\<close>

theorem refreshSnapshot_refetches_once:
  assumes paired: "\<not> missing (deviceId w)"
    and got: "attempt w (requests m) = Parsed snap"
    and expired: "cacheSnapshotMedia (env_at w (requests m)) (clock w (requests m)) snap (cache m) = (Inl e, c1)"
  shows "refreshSnapshot w True m =
           refreshSnapshot w False (m\<lparr>requests := Suc (requests m), cache := c1\<rparr>)
       \<and> requests (snd (refreshSnapshot w True m)) = requests m + 2
       \<and> (\<forall>snap2 e2 c2.
             attempt w (Suc (requests m)) = Parsed snap2 \<and>
             cacheSnapshotMedia (env_at w (Suc (requests m))) (clock w (Suc (requests m))) snap2 c1
               = (Inl e2, c2) \<longrightarrow>
             refreshSnapshot w True m =
               applyOfflineFallback w (Suc (requests m)) (message e2)
                 (m\<lparr>requests := Suc (Suc (requests m)), cache := c2\<rparr>)
             \<and> (\<exists>playlist.
                   fst (refreshSnapshot w True m) = Some playlist
                 \<and> currentPlaylist (snd (refreshSnapshot w True m)) = Some playlist
                 \<and> emitted (snd (refreshSnapshot w True m)) = playlist # emitted m
                 \<and> lastError (snd (refreshSnapshot w True m)) = Some (message e2)
                 \<and> currentSnapshot (snd (refreshSnapshot w True m)) = currentSnapshot m
                 \<and> (case currentSnapshot m of
                       None \<Rightarrow>
                         playlist = \<lparr>pl_mode = mode_empty, pl_items = [], pl_scheduleId = None,
                                      pl_snapshotId = None,
                                      pl_lastSnapshotAt =
                                        (case currentPlaylist m of
                                           Some p \<Rightarrow> pl_lastSnapshotAt p
                                         | None \<Rightarrow> None)\<rparr>
                         \<and> cache (snd (refreshSnapshot w True m)) = c2
                     | Some cached \<Rightarrow>
                         playlist = \<lparr>pl_mode = fst (select_items cached mode_offline),
                                      pl_items = held_items (env_at w (Suc (requests m)))
                                                   (pathToFileURL w) c2
                                                   (snd (select_items cached mode_offline)),
                                      pl_scheduleId = scheduleId cached,
                                      pl_snapshotId = snapshotId cached,
                                      pl_lastSnapshotAt = Some (fetchedAt cached)\<rparr>)))"
proof -
  note url = cacheSnapshotMedia_error[OF expired]
  have step: "refreshSnapshot w True m =
           refreshSnapshot w False (m\<lparr>requests := Suc (requests m), cache := c1\<rparr>)"
    using paired got expired url by (simp add: refresh_pass_def Let_def)
  have count: "requests (snd (refreshSnapshot w True m)) = requests m + 2"
    unfolding step using requests_final_pass[OF paired] by simp
  have again: "refreshSnapshot w True m =
               applyOfflineFallback w (Suc (requests m)) (message e2)
                 (m\<lparr>requests := Suc (Suc (requests m)), cache := c2\<rparr>)"
    if "attempt w (Suc (requests m)) = Parsed snap2"
      and "cacheSnapshotMedia (env_at w (Suc (requests m))) (clock w (Suc (requests m))) snap2 c1
               = (Inl e2, c2)" for snap2 e2 c2
    unfolding step using paired that by (simp add: refresh_pass_def Let_def)
  have outcome: "\<exists>playlist.
                   fst (refreshSnapshot w True m) = Some playlist
                 \<and> currentPlaylist (snd (refreshSnapshot w True m)) = Some playlist
                 \<and> emitted (snd (refreshSnapshot w True m)) = playlist # emitted m
                 \<and> lastError (snd (refreshSnapshot w True m)) = Some (message e2)
                 \<and> currentSnapshot (snd (refreshSnapshot w True m)) = currentSnapshot m
                 \<and> (case currentSnapshot m of
                       None \<Rightarrow>
                         playlist = \<lparr>pl_mode = mode_empty, pl_items = [], pl_scheduleId = None,
                                      pl_snapshotId = None,
                                      pl_lastSnapshotAt =
                                        (case currentPlaylist m of
                                           Some p \<Rightarrow> pl_lastSnapshotAt p
                                         | None \<Rightarrow> None)\<rparr>
                         \<and> cache (snd (refreshSnapshot w True m)) = c2
                     | Some cached \<Rightarrow>
                         playlist = \<lparr>pl_mode = fst (select_items cached mode_offline),
                                      pl_items = held_items (env_at w (Suc (requests m)))
                                                   (pathToFileURL w) c2
                                                   (snd (select_items cached mode_offline)),
                                      pl_scheduleId = scheduleId cached,
                                      pl_snapshotId = snapshotId cached,
                                      pl_lastSnapshotAt = Some (fetchedAt cached)\<rparr>)"
    if "attempt w (Suc (requests m)) = Parsed snap2"
      and "cacheSnapshotMedia (env_at w (Suc (requests m))) (clock w (Suc (requests m))) snap2 c1
               = (Inl e2, c2)" for snap2 e2 c2
  proof -
    let ?m2 = "m\<lparr>requests := Suc (Suc (requests m)), cache := c2\<rparr>"
    obtain r m' where run: "refreshSnapshot w True m = (r, m')"
      by (cases "refreshSnapshot w True m")
    with again[OF that] have "applyOfflineFallback w (Suc (requests m)) (message e2) ?m2 = (r, m')"
      by simp
    from applyOfflineFallback_outcome[OF this] run show ?thesis
      by (cases "currentSnapshot m") auto
  qed
  from step count again outcome show ?thesis by blast
qed



lemma add_expired_example:
  "add (example_expiring_env b) t ''m1'' ''https://u/1.png?sig=old'' None
       (example_empty_cache\<lparr>downloads := ds\<rparr>) =
     (Inl expired_error, example_empty_cache\<lparr>downloads := ''https://u/1.png?sig=old'' # ds\<rparr>)"
  by (simp add: add_def has_def has_on_disk_def addInternal_def download_def
      example_expiring_env_def example_empty_cache_def expired_error_def)

lemma add_refused_example:
  "add (example_expiring_env False) t ''m1'' ''https://u/1.png?sig=new'' None
       (example_empty_cache\<lparr>downloads := ds\<rparr>) =
     (Inl expired_error, example_empty_cache\<lparr>downloads := ''https://u/1.png?sig=new'' # ds\<rparr>)"
  by (simp add: add_def has_def has_on_disk_def addInternal_def download_def
      example_expiring_env_def example_empty_cache_def expired_error_def)

lemma cache_old_example:
  "cacheSnapshotMedia (example_expiring_env b) t (example_snapshot_signed ''https://u/1.png?sig=old'')
       (example_empty_cache\<lparr>downloads := ds\<rparr>) =
     (Inl expired_error, example_empty_cache\<lparr>downloads := ''https://u/1.png?sig=old'' # ds\<rparr>)"
  by (simp add: cacheSnapshotMedia_def example_snapshot_signed_def example_item_signed_def
      add_expired_example) (simp add: expired_error_def)

lemma cache_new_refused_example:
  "cacheSnapshotMedia (example_expiring_env False) t (example_snapshot_signed ''https://u/1.png?sig=new'')
       (example_empty_cache\<lparr>downloads := ds\<rparr>) =
     (Inl expired_error, example_empty_cache\<lparr>downloads := ''https://u/1.png?sig=new'' # ds\<rparr>)"
  by (simp add: cacheSnapshotMedia_def example_snapshot_signed_def example_item_signed_def
      add_refused_example) (simp add: expired_error_def)

lemma cache_fresh_refused_example:
  "cacheSnapshotMedia (example_expiring_env False) t (example_snapshot_fresh url)
       (example_cache 0\<lparr>downloads := ds\<rparr>) =
     (Inl expired_error, example_cache 0\<lparr>downloads := url # ds\<rparr>)"
  if "url = ''https://u/2.png?sig=old'' \<or> url = ''https://u/2.png?sig=new''"
  using that
  by (auto simp: cacheSnapshotMedia_def example_snapshot_fresh_def example_item_fresh_def
      add_def has_def has_on_disk_def addInternal_def download_def
      example_expiring_env_def example_cache_def example_entry_def expired_error_def)

text \<open>
  The cycle on a manager that holds no snapshot ends with the empty playlist; on a
  manager that holds one it ends with that snapshot's playlist, here of mode normal.
\<close>

theorem refreshSnapshot_refetches_once_witness:
  "\<not> missing (deviceId (example_world False)) \<and>
   attempt (example_world False) (requests example_manager) =
     Parsed (example_snapshot_signed ''https://u/1.png?sig=old'') \<and>
   fst (cacheSnapshotMedia (env_at (example_world False) 0) (clock (example_world False) 0)
          (example_snapshot_signed ''https://u/1.png?sig=old'') (cache example_manager))
     = Inl expired_error \<and>
   currentSnapshot example_manager = None \<and>
   requests (snd (refreshSnapshot (example_world False) True example_manager)) = 2 \<and>
   fst (refreshSnapshot (example_world False) True example_manager) =
     Some \<lparr>pl_mode = mode_empty, pl_items = [], pl_scheduleId = None, pl_snapshotId = None,
            pl_lastSnapshotAt = None\<rparr> \<and>
   lastError (snd (refreshSnapshot (example_world False) True example_manager)) =
     Some ''Presigned URL expired'' \<and>
   downloads (cache (snd (refreshSnapshot (example_world False) True example_manager))) =
     [''https://u/1.png?sig=new'', ''https://u/1.png?sig=old''] \<and>
   \<not> missing (deviceId example_world_cached) \<and>
   attempt example_world_cached (requests example_manager_cached) =
     Parsed (example_snapshot_fresh ''https://u/2.png?sig=old'') \<and>
   fst (cacheSnapshotMedia (env_at example_world_cached 0) (clock example_world_cached 0)
          (example_snapshot_fresh ''https://u/2.png?sig=old'') (cache example_manager_cached))
     = Inl expired_error \<and>
   currentSnapshot example_manager_cached = Some example_cached_snapshot \<and>
   requests (snd (refreshSnapshot example_world_cached True example_manager_cached)) = 2 \<and>
   fst (refreshSnapshot example_world_cached True example_manager_cached) =
     Some \<lparr>pl_mode = mode_normal,
            pl_items = [example_scheduled_item\<lparr>ti_localPath := Some ''/var/cache/media/m1.png'',
                          ti_localUrl := Some ''file:///var/cache/media/m1.png''\<rparr>],
            pl_scheduleId = Some ''s1'', pl_snapshotId = None,
            pl_lastSnapshotAt = Some ''2026-01-01T00:00:00.000Z''\<rparr> \<and>
   emitted (snd (refreshSnapshot example_world_cached True example_manager_cached)) =
     [\<lparr>pl_mode = mode_normal,
       pl_items = [example_scheduled_item\<lparr>ti_localPath := Some ''/var/cache/media/m1.png'',
                          ti_localUrl := Some ''file:///var/cache/media/m1.png''\<rparr>],
       pl_scheduleId = Some ''s1'', pl_snapshotId = None,
       pl_lastSnapshotAt = Some ''2026-01-01T00:00:00.000Z''\<rparr>] \<and>
   lastError (snd (refreshSnapshot example_world_cached True example_manager_cached)) =
     Some ''Presigned URL expired'' \<and>
   currentSnapshot (snd (refreshSnapshot example_world_cached True example_manager_cached)) =
     Some example_cached_snapshot"
proof -
  let ?w = "example_world False"
  have c0: "cache example_manager = example_empty_cache\<lparr>downloads := []\<rparr>"
    by (simp add: example_manager_def example_empty_cache_def)
  have r0: "requests example_manager = 0" by (simp add: example_manager_def)
  have s0: "currentSnapshot example_manager = None" "currentPlaylist example_manager = None"
    "emitted example_manager = []"
    by (simp_all add: example_manager_def)
  have paired: "\<not> missing (deviceId ?w)" by (simp add: example_world_def)
  have got: "attempt ?w (requests example_manager) =
     Parsed (example_snapshot_signed ''https://u/1.png?sig=old'')"
    by (simp add: example_world_def r0)
  have e0: "env_at ?w k = example_expiring_env False" for k by (simp add: example_world_def)
  have expired: "cacheSnapshotMedia (env_at ?w (requests example_manager))
         (clock ?w (requests example_manager))
         (example_snapshot_signed ''https://u/1.png?sig=old'') (cache example_manager) =
       (Inl expired_error, example_empty_cache\<lparr>downloads := [''https://u/1.png?sig=old'']\<rparr>)"
    unfolding c0 e0 by (rule cache_old_example)
  have got2: "attempt ?w (Suc (requests example_manager)) =
     Parsed (example_snapshot_signed ''https://u/1.png?sig=new'')"
    by (simp add: example_world_def r0)
  have expired2: "cacheSnapshotMedia (env_at ?w (Suc (requests example_manager)))
         (clock ?w (Suc (requests example_manager)))
         (example_snapshot_signed ''https://u/1.png?sig=new'')
         (example_empty_cache\<lparr>downloads := [''https://u/1.png?sig=old'']\<rparr>) =
       (Inl expired_error,
        example_empty_cache\<lparr>downloads := [''https://u/1.png?sig=new'', ''https://u/1.png?sig=old'']\<rparr>)"
    unfolding e0 by (rule cache_new_refused_example)
  note inst = refreshSnapshot_refetches_once[OF paired got expired]
  from inst[THEN conjunct2, THEN conjunct1]
  have count: "requests (snd (refreshSnapshot ?w True example_manager)) = 2"
    by (simp add: r0 del: refreshSnapshot.simps)
  from inst[THEN conjunct2, THEN conjunct2, rule_format, OF conjI, OF got2 expired2, THEN conjunct2]
  obtain playlist where
    out: "fst (refreshSnapshot ?w True example_manager) = Some playlist"
      "lastError (snd (refreshSnapshot ?w True example_manager)) = Some (message expired_error)"
      "playlist = \<lparr>pl_mode = mode_empty, pl_items = [], pl_scheduleId = None,
                     pl_snapshotId = None, pl_lastSnapshotAt = None\<rparr>"
      "cache (snd (refreshSnapshot ?w True example_manager)) =
         example_empty_cache\<lparr>downloads := [''https://u/1.png?sig=new'', ''https://u/1.png?sig=old'']\<rparr>"
    by (auto simp: s0 simp del: refreshSnapshot.simps)
  have first: "requests (snd (refreshSnapshot ?w True example_manager)) = 2"
    "fst (refreshSnapshot ?w True example_manager) =
       Some \<lparr>pl_mode = mode_empty, pl_items = [], pl_scheduleId = None, pl_snapshotId = None,
            pl_lastSnapshotAt = None\<rparr>"
    "lastError (snd (refreshSnapshot ?w True example_manager)) = Some ''Presigned URL expired''"
    "downloads (cache (snd (refreshSnapshot ?w True example_manager))) =
       [''https://u/1.png?sig=new'', ''https://u/1.png?sig=old'']"
    using count out by (simp_all add: expired_error_def del: refreshSnapshot.simps)

  let ?v = "example_world_cached"
  let ?n = "example_manager_cached"
  have c0': "cache ?n = example_cache 0\<lparr>downloads := []\<rparr>"
    by (simp add: example_manager_cached_def example_cache_def)
  have r0': "requests ?n = 0" by (simp add: example_manager_cached_def)
  have s0': "currentSnapshot ?n = Some example_cached_snapshot" "emitted ?n = []"
    by (simp_all add: example_manager_cached_def)
  have paired': "\<not> missing (deviceId ?v)" by (simp add: example_world_cached_def)
  have got': "attempt ?v (requests ?n) = Parsed (example_snapshot_fresh ''https://u/2.png?sig=old'')"
    by (simp add: example_world_cached_def r0')
  have e0': "env_at ?v k = example_expiring_env False" for k by (simp add: example_world_cached_def)
  have pf: "pathToFileURL ?v = example_file_url" by (simp add: example_world_cached_def)
  have expired': "cacheSnapshotMedia (env_at ?v (requests ?n)) (clock ?v (requests ?n))
         (example_snapshot_fresh ''https://u/2.png?sig=old'') (cache ?n) =
       (Inl expired_error, example_cache 0\<lparr>downloads := [''https://u/2.png?sig=old'']\<rparr>)"
    unfolding c0' e0' by (rule cache_fresh_refused_example) simp
  have got2': "attempt ?v (Suc (requests ?n)) = Parsed (example_snapshot_fresh ''https://u/2.png?sig=new'')"
    by (simp add: example_world_cached_def r0')
  have expired2': "cacheSnapshotMedia (env_at ?v (Suc (requests ?n))) (clock ?v (Suc (requests ?n)))
         (example_snapshot_fresh ''https://u/2.png?sig=new'')
         (example_cache 0\<lparr>downloads := [''https://u/2.png?sig=old'']\<rparr>) =
       (Inl expired_error,
        example_cache 0\<lparr>downloads := [''https://u/2.png?sig=new'', ''https://u/2.png?sig=old'']\<rparr>)"
    unfolding e0' by (rule cache_fresh_refused_example) simp
  have sel: "select_items example_cached_snapshot mode_offline = (mode_normal, [example_scheduled_item])"
    by (simp add: select_items_def example_cached_snapshot_def)
  have held: "held_items (example_expiring_env False) example_file_url
        (example_cache 0\<lparr>downloads := [''https://u/2.png?sig=new'', ''https://u/2.png?sig=old'']\<rparr>)
        [example_scheduled_item] =
      [example_scheduled_item\<lparr>ti_localPath := Some ''/var/cache/media/m1.png'',
                          ti_localUrl := Some ''file:///var/cache/media/m1.png''\<rparr>]"
    by (simp add: held_items_def map_filter_simps hydrate_def held_path_def str_or_def
        example_scheduled_item_def example_cache_def example_entry_def
        example_expiring_env_def existsSync_def path_join_def example_file_url_def)
  have meta: "scheduleId example_cached_snapshot = Some ''s1''"
    "snapshotId example_cached_snapshot = None"
    "fetchedAt example_cached_snapshot = ''2026-01-01T00:00:00.000Z''"
    by (simp_all add: example_cached_snapshot_def)
  note inst' = refreshSnapshot_refetches_once[OF paired' got' expired']
  from inst'[THEN conjunct2, THEN conjunct1]
  have count': "requests (snd (refreshSnapshot ?v True ?n)) = 2"
    by (simp add: r0' del: refreshSnapshot.simps)
  from inst'[THEN conjunct2, THEN conjunct2, rule_format, OF conjI, OF got2' expired2', THEN conjunct2]
  obtain playlist' where
    out': "fst (refreshSnapshot ?v True ?n) = Some playlist'"
      "emitted (snd (refreshSnapshot ?v True ?n)) = [playlist']"
      "lastError (snd (refreshSnapshot ?v True ?n)) = Some (message expired_error)"
      "currentSnapshot (snd (refreshSnapshot ?v True ?n)) = Some example_cached_snapshot"
      "playlist' = \<lparr>pl_mode = mode_normal,
            pl_items = [example_scheduled_item\<lparr>ti_localPath := Some ''/var/cache/media/m1.png'',
                          ti_localUrl := Some ''file:///var/cache/media/m1.png''\<rparr>],
            pl_scheduleId = Some ''s1'', pl_snapshotId = None,
            pl_lastSnapshotAt = Some ''2026-01-01T00:00:00.000Z''\<rparr>"
    by (auto simp: s0' e0' pf sel held meta simp del: refreshSnapshot.simps)
  have second: "requests (snd (refreshSnapshot ?v True ?n)) = 2"
    "fst (refreshSnapshot ?v True ?n) =
     Some \<lparr>pl_mode = mode_normal,
            pl_items = [example_scheduled_item\<lparr>ti_localPath := Some ''/var/cache/media/m1.png'',
                          ti_localUrl := Some ''file:///var/cache/media/m1.png''\<rparr>],
            pl_scheduleId = Some ''s1'', pl_snapshotId = None,
            pl_lastSnapshotAt = Some ''2026-01-01T00:00:00.000Z''\<rparr>"
    "emitted (snd (refreshSnapshot ?v True ?n)) =
     [\<lparr>pl_mode = mode_normal,
       pl_items = [example_scheduled_item\<lparr>ti_localPath := Some ''/var/cache/media/m1.png'',
                          ti_localUrl := Some ''file:///var/cache/media/m1.png''\<rparr>],
       pl_scheduleId = Some ''s1'', pl_snapshotId = None,
       pl_lastSnapshotAt = Some ''2026-01-01T00:00:00.000Z''\<rparr>]"
    "lastError (snd (refreshSnapshot ?v True ?n)) = Some ''Presigned URL expired''"
    "currentSnapshot (snd (refreshSnapshot ?v True ?n)) = Some example_cached_snapshot"
    using count' out' by (simp_all add: expired_error_def del: refreshSnapshot.simps)
  have pre: "fst (cacheSnapshotMedia (env_at ?w 0) (clock ?w 0)
          (example_snapshot_signed ''https://u/1.png?sig=old'') (cache example_manager))
     = Inl expired_error"
    "fst (cacheSnapshotMedia (env_at ?v 0) (clock ?v 0)
          (example_snapshot_fresh ''https://u/2.png?sig=old'') (cache ?n))
     = Inl expired_error"
    using expired expired' by (simp_all add: r0 r0' del: refreshSnapshot.simps)
  show ?thesis
    using paired got pre(1) s0(1) first paired' got' pre(2) s0'(1) second
    by (intro conjI)
qed

text \<open>
  Scenario S4 run to its end: the refetched snapshot carries a URL that works, and the
  cycle ends after two requests and two downloads with the item in a normal playlist.
\<close>

lemma refreshSnapshot_scenario_S4:
  "requests (snd (refreshSnapshot (example_world True) True example_manager)) = 2 \<and>
   map_option pl_mode (fst (refreshSnapshot (example_world True) True example_manager)) = Some mode_normal \<and>
   map_option (map ti_localPath o pl_items) (fst (refreshSnapshot (example_world True) True example_manager))
     = Some [Some ''/var/cache/media/m1.png''] \<and>
   downloads (cache (snd (refreshSnapshot (example_world True) True example_manager))) =
     [''https://u/1.png?sig=new'', ''https://u/1.png?sig=old'']"
proof -
  let ?w = "example_world True"
  have c0: "cache example_manager = example_empty_cache\<lparr>downloads := []\<rparr>"
    by (simp add: example_manager_def example_empty_cache_def)
  have r0: "requests example_manager = 0" by (simp add: example_manager_def)
  have paired: "\<not> missing (deviceId ?w)" by (simp add: example_world_def)
  have got: "attempt ?w (requests example_manager) =
     Parsed (example_snapshot_signed ''https://u/1.png?sig=old'')"
    by (simp add: example_world_def r0)
  have e0: "env_at ?w k = example_expiring_env True" for k by (simp add: example_world_def)
  have expired: "cacheSnapshotMedia (env_at ?w (requests example_manager))
         (clock ?w (requests example_manager))
         (example_snapshot_signed ''https://u/1.png?sig=old'') (cache example_manager) =
       (Inl expired_error, example_empty_cache\<lparr>downloads := [''https://u/1.png?sig=old'']\<rparr>)"
    unfolding c0 e0 by (rule cache_old_example)
  have step: "refreshSnapshot ?w True example_manager =
      refreshSnapshot ?w False (example_manager\<lparr>requests := Suc (requests example_manager),
         cache := example_empty_cache\<lparr>downloads := [''https://u/1.png?sig=old'']\<rparr>\<rparr>)"
    using paired got expired by (simp add: refresh_pass_def Let_def expired_error_def)
  show ?thesis
    unfolding step
    by (simp add: refresh_pass_def Let_def example_world_def example_manager_def
        cacheSnapshotMedia_def example_snapshot_signed_def example_item_signed_def
        add_def has_def has_on_disk_def addInternal_def download_def evictIfNeeded_def
        getUsedBytes_def atomicWrite_def getFilePath_def file_name_def getFileExtension_def
        path_join_def existsSync_def buildPlaylist_def select_items_def str_or_def get_def
        emit_playlist_def example_expiring_env_def example_empty_cache_def example_file_url_def)
qed

subsection \<open>Playback engine\<close>











subsection \<open>Command processor\<close>

text \<open>An acknowledgement touches neither the commands in process, the history, the rate-limit times nor the dispatch log.\<close>

lemma acknowledgeCommand_frame:
  "processingCommands (acknowledgeCommand aw i r p) = processingCommands p"
  "commandHistory (acknowledgeCommand aw i r p) = commandHistory p"
  "rateLimitMap (acknowledgeCommand aw i r p) = rateLimitMap p"
  "dispatched (acknowledgeCommand aw i r p) = dispatched p"
  by (simp_all add: acknowledgeCommand_def split: option.splits)

lemma rate_sound_new: "rate_sound t new_processor"
  by (simp add: rate_sound_def new_processor_def)

lemma rate_sound_later: "rate_sound t p \<Longrightarrow> t \<le> t' \<Longrightarrow> rate_sound t' p"
  unfolding rate_sound_def list_all_iff by (fastforce split: option.splits)

lemma rate_sound_step:
  assumes inv: "rate_sound t p" and pos: "0 < t"
    and clk: "t \<le> checked_at a" "checked_at a \<le> finished_at a"
  shows "rate_sound (finished_at a) (processCommand a p)"
proof -
  let ?c = "command a"
  from clk have le: "t \<le> finished_at a" by simp
  consider (busy) "cmd_id ?c \<in> set (processingCommands p)"
    | (limited) "cmd_id ?c \<notin> set (processingCommands p)" "isRateLimited p (cmd_type ?c) (checked_at a)"
    | (run) "cmd_id ?c \<notin> set (processingCommands p)" "\<not> isRateLimited p (cmd_type ?c) (checked_at a)"
    by blast
  then show ?thesis
  proof cases
    case busy
    then have "processCommand a p = p"
      by (simp add: processCommand_def begin_command_def)
    with rate_sound_later[OF inv le] show ?thesis by simp
  next
    case limited
    then have "processCommand a p =
        acknowledgeCommand (ack a) (cmd_id ?c) (failed ''Rate limited'' (checked_at a)) p"
      by (simp add: processCommand_def begin_command_def)
    with rate_sound_later[OF inv le] show ?thesis
      by (simp add: rate_sound_def acknowledgeCommand_frame)
  next
    case run
    let ?ty = "cmd_type ?c"
    let ?q = "processCommand a p"
    from run have d: "dispatched ?q = (cmd_id ?c, ?ty, checked_at a) # dispatched p"
      and m: "rateLimitMap ?q = AList.update ?ty (finished_at a) (rateLimitMap p)"
      by (simp_all add: processCommand_def begin_command_def finish_command_def Let_def
          updateRateLimit_def acknowledgeCommand_frame remember_def)
    have old: "\<exists>last. map_of (rateLimitMap p) ty = Some last \<and> 0 < last \<and> td \<le> last \<and> last \<le> t"
      if "(i, ty, td) \<in> set (dispatched p)" for i ty td
      using inv that unfolding rate_sound_def list_all_iff by (fastforce split: option.splits)
    have far: "checked_at a - td \<ge> rateLimitWindowMs"
      if "(i, ?ty, td) \<in> set (dispatched p)" for i td
    proof -
      from old[OF that] obtain last where
        l: "map_of (rateLimitMap p) ?ty = Some last" "0 < last" "td \<le> last" by blast
      with run(2) have "\<not> checked_at a - last < rateLimitWindowMs"
        by (simp add: isRateLimited_def)
      with l(3) show ?thesis by simp
    qed
    have sep: "separated (dispatched ?q)"
      using inv far unfolding d rate_sound_def by (auto simp: list_all_iff)
    have new: "\<exists>last. map_of (rateLimitMap ?q) ty = Some last \<and> 0 < last \<and> td \<le> last \<and>
                 last \<le> finished_at a"
      if "(i, ty, td) \<in> set (dispatched ?q)" for i ty td
    proof (cases "ty = ?ty")
      case True
      have "td \<le> finished_at a"
      proof (cases "(i, ty, td) \<in> set (dispatched p)")
        case True
        from old[OF this] le show ?thesis by auto
      next
        case False
        with that d have "td = checked_at a" by auto
        with clk show ?thesis by simp
      qed
      with True pos le show ?thesis by (simp add: m update_conv')
    next
      case False
      with that d have "(i, ty, td) \<in> set (dispatched p)" by auto
      from old[OF this] False le show ?thesis by (auto simp: m update_conv')
    qed
    from sep new show ?thesis
      unfolding rate_sound_def list_all_iff by (fastforce split: option.splits)
  qed
qed

lemma rate_sound_run:
  "rate_sound t p \<Longrightarrow> 0 < t \<Longrightarrow> clock_runs_on t arrivals \<Longrightarrow>
     separated (dispatched (process_all arrivals p))"
proof (induction arrivals arbitrary: t p)
  case Nil
  then show ?case by (simp add: rate_sound_def)
next
  case (Cons a rest)
  from Cons.prems have clk: "t \<le> checked_at a" "checked_at a \<le> finished_at a"
    and rest: "clock_runs_on (finished_at a) rest" by simp_all
  from rate_sound_step[OF Cons.prems(1,2) clk] have "rate_sound (finished_at a) (processCommand a p)" .
  moreover from Cons.prems(2) clk have "0 < finished_at a" by simp
  ultimately show ?case using Cons.IH rest by simp
qed

text \<open>
  C5, as amended. When the commands are processed one after the other, each to its end
  before the next begins, and the readings of \<^verbatim>\<open>Date.now()\<close> are positive and never
  decrease, any two dispatches of one command type lie at least 60 seconds apart: this
  holds of a new processor and of every state a run of that kind reaches. A command
  that is not in process and arrives less than 60 seconds after the recorded last
  execution of its type is not dispatched: \<^verbatim>\<open>acknowledgeCommand\<close> is called for it with
  the result \<^verbatim>\<open>{success: false, error: "Rate limited"}\<close>, and the dispatch log, the
  rate-limit times and the history stay as they were. What the acknowledgement sends is
  not that result: on a paired device it is a \<^verbatim>\<open>POST\<close> of the empty object to the
  acknowledgement URL of the command, the \<^verbatim>\<open>success\<close> flag going to the debug log only;
  when the \<^verbatim>\<open>POST\<close> fails the same empty request is put on the request queue with three
  retries; on a device that is not paired nothing is sent. The last execution of a type
  is recorded when an execution ends, after its acknowledgement.
\<close>

theorem rate_limit_separates:
  "rate_sound t new_processor
   \<and> (rate_sound t p \<and> 0 < t \<and> clock_runs_on t arrivals \<longrightarrow>
        separated (dispatched (process_all arrivals p)))
   \<and> (cmd_id (command a) \<notin> set (processingCommands q) \<and>
       map_of (rateLimitMap q) (cmd_type (command a)) = Some lastExecution \<and> lastExecution \<noteq> 0 \<and>
       checked_at a - lastExecution < rateLimitWindowMs \<longrightarrow>
         processCommand a q =
           acknowledgeCommand (ack a) (cmd_id (command a)) (failed ''Rate limited'' (checked_at a)) q \<and>
         dispatched (processCommand a q) = dispatched q \<and>
         rateLimitMap (processCommand a q) = rateLimitMap q \<and>
         commandHistory (processCommand a q) = commandHistory q \<and>
         (case paired_as (ack a) of
            None \<Rightarrow> processCommand a q = q
          | Some device \<Rightarrow>
              if device = [] then processCommand a q = q
              else if post_succeeds (ack a) then
                posted (processCommand a q) =
                  (ack_url device (cmd_id (command a)), JObj []) # posted q \<and>
                ack_logged (processCommand a q) = (cmd_id (command a), False) # ack_logged q \<and>
                queued (processCommand a q) = queued q
              else if enqueue_succeeds (ack a) then
                queued (processCommand a q) =
                  \<lparr>rq_method = ''POST'', rq_url = ack_url device (cmd_id (command a)),
                   rq_data = JObj [], rq_maxRetries = 3\<rparr> # queued q \<and>
                posted (processCommand a q) = posted q \<and>
                ack_logged (processCommand a q) = ack_logged q
              else processCommand a q = q))"
proof (intro conjI impI)
  show "rate_sound t new_processor" by (rule rate_sound_new)
next
  assume "rate_sound t p \<and> 0 < t \<and> clock_runs_on t arrivals"
  then show "separated (dispatched (process_all arrivals p))"
    using rate_sound_run by blast
next
  assume h: "cmd_id (command a) \<notin> set (processingCommands q) \<and>
       map_of (rateLimitMap q) (cmd_type (command a)) = Some lastExecution \<and> lastExecution \<noteq> 0 \<and>
       checked_at a - lastExecution < rateLimitWindowMs"
  then have lim: "isRateLimited q (cmd_type (command a)) (checked_at a)"
    by (simp add: isRateLimited_def)
  with h show run: "processCommand a q =
           acknowledgeCommand (ack a) (cmd_id (command a)) (failed ''Rate limited'' (checked_at a)) q"
    by (simp add: processCommand_def begin_command_def)
  then show "dispatched (processCommand a q) = dispatched q"
    "rateLimitMap (processCommand a q) = rateLimitMap q"
    "commandHistory (processCommand a q) = commandHistory q"
    by (simp_all add: acknowledgeCommand_frame)
  show "case paired_as (ack a) of
            None \<Rightarrow> processCommand a q = q
          | Some device \<Rightarrow>
              if device = [] then processCommand a q = q
              else if post_succeeds (ack a) then
                posted (processCommand a q) =
                  (ack_url device (cmd_id (command a)), JObj []) # posted q \<and>
                ack_logged (processCommand a q) = (cmd_id (command a), False) # ack_logged q \<and>
                queued (processCommand a q) = queued q
              else if enqueue_succeeds (ack a) then
                queued (processCommand a q) =
                  \<lparr>rq_method = ''POST'', rq_url = ack_url device (cmd_id (command a)),
                   rq_data = JObj [], rq_maxRetries = 3\<rparr> # queued q \<and>
                posted (processCommand a q) = posted q \<and>
                ack_logged (processCommand a q) = ack_logged q
              else processCommand a q = q"
    unfolding run
    by (simp add: acknowledgeCommand_def failed_def split: option.splits)
qed

lemmas processor_defs =
  processCommand_def begin_command_def finish_command_def isRateLimited_def dispatch_def
  remember_def acknowledgeCommand_def ack_url_def updateRateLimit_def succeeded_def failed_def
  maxHistorySize_def rateLimitWindowMs_def new_processor_def example_first_def
  example_second_def example_ack_def Let_def

text \<open>
  Scenario S5: the second screenshot command, ten seconds after the first, is not
  dispatched; the server receives an acknowledgement of it with an empty body.
\<close>

theorem rate_limit_separates_witness:
  "rate_sound 1 new_processor \<and> (0::int) < 1 \<and>
   clock_runs_on 1 [example_first 800, example_second] \<and>
   separated (dispatched (process_all [example_first 800, example_second] new_processor)) \<and>
   dispatched (process_all [example_first 800, example_second] new_processor) =
     [(''c1'', ''SCREENSHOT'', 1700000000000)] \<and>
   map_of (rateLimitMap (processCommand (example_first 800) new_processor)) ''SCREENSHOT'' =
     Some 1700000000800 \<and>
   checked_at example_second - 1700000000800 < rateLimitWindowMs \<and>
   paired_as (ack example_second) = Some ''dev-1'' \<and> post_succeeds (ack example_second) \<and>
   processCommand example_second (processCommand (example_first 800) new_processor) =
     acknowledgeCommand example_ack ''c2'' (failed ''Rate limited'' 1700000010000)
       (processCommand (example_first 800) new_processor) \<and>
   posted (processCommand example_second (processCommand (example_first 800) new_processor)) =
     [(''/v1/device/dev-1/commands/c2/ack'', JObj []),
      (''/v1/device/dev-1/commands/c1/ack'', JObj [])] \<and>
   ack_logged (processCommand example_second (processCommand (example_first 800) new_processor)) =
     [(''c2'', False), (''c1'', True)]"
proof -
  let ?p1 = "processCommand (example_first 800) new_processor"
  have a: "rate_sound 1 new_processor" by (rule rate_sound_new)
  have b: "clock_runs_on 1 [example_first 800, example_second]"
    by (simp add: example_first_def example_second_def)
  have c: "cmd_id (command example_second) \<notin> set (processingCommands ?p1)"
    "map_of (rateLimitMap ?p1) (cmd_type (command example_second)) = Some 1700000000800"
    "checked_at example_second - 1700000000800 < rateLimitWindowMs"
    "cmd_id (command example_second) = ''c2''" "checked_at example_second = 1700000010000"
    "cmd_type (command example_second) = ''SCREENSHOT''"
    by (simp_all add: processor_defs)
  have k: "ack example_second = example_ack" "paired_as example_ack = Some ''dev-1''"
    "post_succeeds example_ack"
    by (simp_all add: example_second_def example_ack_def)
  have u: "ack_url ''dev-1'' ''c2'' = ''/v1/device/dev-1/commands/c2/ack''"
    by (simp add: ack_url_def)
  have d: "dispatched (process_all [example_first 800, example_second] new_processor) =
     [(''c1'', ''SCREENSHOT'', 1700000000000)]"
    by (simp add: processor_defs)
  have f: "posted ?p1 = [(''/v1/device/dev-1/commands/c1/ack'', JObj [])]"
    "ack_logged ?p1 = [(''c1'', True)]"
    by (simp_all add: processor_defs)
  note inst = rate_limit_separates[where t = 1 and p = new_processor
         and arrivals = "[example_first 800, example_second]"
         and a = example_second and q = ?p1 and lastExecution = 1700000000800]
  from inst[THEN conjunct2, THEN conjunct1] a b
  have sep: "separated (dispatched (process_all [example_first 800, example_second] new_processor))"
    by simp
  from c have pre: "cmd_id (command example_second) \<notin> set (processingCommands ?p1) \<and>
       map_of (rateLimitMap ?p1) (cmd_type (command example_second)) = Some 1700000000800 \<and>
       (1700000000800::int) \<noteq> 0 \<and>
       checked_at example_second - 1700000000800 < rateLimitWindowMs"
    by simp
  note lim = inst[THEN conjunct2, THEN conjunct2, rule_format, OF pre]
  from lim[THEN conjunct1] c k
  have run: "processCommand example_second ?p1 =
     acknowledgeCommand example_ack ''c2'' (failed ''Rate limited'' 1700000010000) ?p1"
    by simp
  from lim[THEN conjunct2, THEN conjunct2, THEN conjunct2, THEN conjunct2] k c(4) u f
  have sent: "posted (processCommand example_second ?p1) =
       [(''/v1/device/dev-1/commands/c2/ack'', JObj []),
        (''/v1/device/dev-1/commands/c1/ack'', JObj [])]"
    "ack_logged (processCommand example_second ?p1) = [(''c2'', False), (''c1'', True)]"
    by simp_all
  from a b sep d c(2,3,6) k run sent show ?thesis
    by (intro conjI) simp_all
qed

text \<open>
  C5, as stated, fails when a command arrives while an execution of its type is still
  in progress, as it can when a poll starts before a handler awaited by the poll before
  has returned: the first screenshot takes 40 seconds, the second command arrives 10
  seconds after the first, finds no rate-limit time recorded yet and is dispatched.
\<close>

theorem rate_limit_overlap_counterexample:
  "fst (begin_command (example_first 40000) new_processor) \<and>
   checked_at example_second < finished_at (example_first 40000) \<and>
   fst (begin_command example_second (snd (begin_command (example_first 40000) new_processor))) \<and>
   dispatched (snd (begin_command example_second
                      (snd (begin_command (example_first 40000) new_processor)))) =
     [(''c2'', ''SCREENSHOT'', 1700000010000), (''c1'', ''SCREENSHOT'', 1700000000000)] \<and>
   \<not> separated (dispatched (snd (begin_command example_second
                      (snd (begin_command (example_first 40000) new_processor)))))"
  by (simp add: processor_defs)

text \<open>
  The clock is needed as assumed. On a clock set back while the first screenshot is
  taken, the time recorded for it lies before its dispatch, and the second command, run
  after the first has ended and ten seconds after its dispatch, is let through.
\<close>

lemma rate_limit_clock_set_back:
  "\<not> clock_runs_on 1 [example_set_back, example_second] \<and>
   dispatched (process_all [example_set_back, example_second] new_processor) =
     [(''c2'', ''SCREENSHOT'', 1700000010000), (''c1'', ''SCREENSHOT'', 1700000000000)] \<and>
   \<not> separated (dispatched (process_all [example_set_back, example_second] new_processor))"
  by (simp add: processor_defs example_set_back_def)

end
